theory Spec2Isabelle
  imports Main "HOL-Library.Sublist"
begin

section \<open>Python values, dictionaries and exceptions\<close>

text \<open>
  The orchestrator in \<^verbatim>\<open>src/terraform/lambda/backup_orchestrator.py\<close> builds
  dictionaries of strings, integers, lists and dictionaries. A dictionary is kept as an
  association list in insertion order, which is the order Python keeps. \<open>PyObject c\<close>
  is an instance of a plain class \<open>c\<close>, as \<^verbatim>\<open>object()\<close> is: true in a test,
  not iterable, without \<^verbatim>\<open>get\<close> or \<^verbatim>\<open>append\<close>, and nothing that
  \<^verbatim>\<open>json\<close> can encode. The source builds none; a replaced step function can
  return one.
\<close>

datatype pyval =
    PyNone
  | PyBool bool
  | PyInt int
  | PyStr string
  | PyList "pyval list"
  | PyDict "(string \<times> pyval) list"
  | PyObject string

type_synonym dict = "(string \<times> pyval) list"

text \<open>
  An exception is an instance of Python's \<^verbatim>\<open>Exception\<close>, the only thing the
  handlers of the source catch; it is kept as the text \<^verbatim>\<open>str(e)\<close> gives.
\<close>

datatype exn = Exn string

fun str_of :: "exn \<Rightarrow> string" where
  "str_of (Exn msg) = msg"

fun type_name :: "pyval \<Rightarrow> string" where
  "type_name PyNone = ''NoneType''"
| "type_name (PyBool b) = ''bool''"
| "type_name (PyInt n) = ''int''"
| "type_name (PyStr s) = ''str''"
| "type_name (PyList xs) = ''list''"
| "type_name (PyDict d) = ''dict''"
| "type_name (PyObject c) = c"

definition squote :: string where
  "squote = [CHR 0x27]"

definition KeyError :: "string \<Rightarrow> exn" where
  "KeyError k = Exn (squote @ k @ squote)"

definition AttributeError :: "pyval \<Rightarrow> string \<Rightarrow> exn" where
  "AttributeError v a =
     Exn (squote @ type_name v @ squote @ '' object has no attribute '' @ squote @ a @ squote)"

definition TypeError_not_iterable :: "pyval \<Rightarrow> exn" where
  "TypeError_not_iterable v = Exn (squote @ type_name v @ squote @ '' object is not iterable'')"

definition TypeError_not_serializable :: "string \<Rightarrow> exn" where
  "TypeError_not_serializable c = Exn (''Object of type '' @ c @ '' is not JSON serializable'')"

text \<open>\<^verbatim>\<open>d.get(k, default)\<close>, \<^verbatim>\<open>d[k]\<close> and \<^verbatim>\<open>d[k] = v\<close>.\<close>

definition dict_get :: "dict \<Rightarrow> string \<Rightarrow> pyval \<Rightarrow> pyval" where
  "dict_get d k dflt = (case map_of d k of None \<Rightarrow> dflt | Some v \<Rightarrow> v)"

definition dict_getitem :: "dict \<Rightarrow> string \<Rightarrow> exn + pyval" where
  "dict_getitem d k = (case map_of d k of None \<Rightarrow> Inl (KeyError k) | Some v \<Rightarrow> Inr v)"

fun dict_set :: "string \<Rightarrow> pyval \<Rightarrow> dict \<Rightarrow> dict" where
  "dict_set k v [] = [(k, v)]"
| "dict_set k v ((k', v') # d) =
     (if k' = k then (k, v) # d else (k', v') # dict_set k v d)"

text \<open>Truth value of a Python object, as \<^verbatim>\<open>not operations\<close> tests it.\<close>

fun truthy :: "pyval \<Rightarrow> bool" where
  "truthy PyNone = False"
| "truthy (PyBool b) = b"
| "truthy (PyInt n) = (n \<noteq> 0)"
| "truthy (PyStr s) = (s \<noteq> [])"
| "truthy (PyList xs) = (xs \<noteq> [])"
| "truthy (PyDict d) = (d \<noteq> [])"
| "truthy (PyObject c) = True"

text \<open>The items a \<^verbatim>\<open>for\<close> loop or a comprehension draws from an object.\<close>

fun py_iter :: "pyval \<Rightarrow> exn + pyval list" where
  "py_iter (PyList xs) = Inr xs"
| "py_iter (PyStr s) = Inr (map (\<lambda>c. PyStr [c]) s)"
| "py_iter (PyDict d) = Inr (map (\<lambda>kv. PyStr (fst kv)) d)"
| "py_iter v = Inl (TypeError_not_iterable v)"

text \<open>
  What \<^verbatim>\<open>json.dumps\<close> does with a value: it walks the value in order and raises
  \<^verbatim>\<open>TypeError\<close> at the first object it cannot encode. \<open>unserialisable v\<close> is the
  class of that object, if there is one. The text written is kept symbolic (the value
  and the indentation asked for): nothing here depends on the characters.
\<close>

fun first_some :: "'a option list \<Rightarrow> 'a option" where
  "first_some [] = None"
| "first_some (None # xs) = first_some xs"
| "first_some (Some x # xs) = Some x"

primrec unserialisable :: "pyval \<Rightarrow> string option" where
  "unserialisable PyNone = None"
| "unserialisable (PyBool b) = None"
| "unserialisable (PyInt n) = None"
| "unserialisable (PyStr s) = None"
| "unserialisable (PyList xs) = first_some (map unserialisable xs)"
| "unserialisable (PyDict d) = first_some (map snd (map (map_prod id unserialisable) d))"
| "unserialisable (PyObject c) = Some c"

datatype json_text = Dumps pyval | Dumps_indent nat pyval

definition dumps :: "pyval \<Rightarrow> exn + json_text" where
  "dumps v =
     (case unserialisable v of
        Some c \<Rightarrow> Inl (TypeError_not_serializable c)
      | None \<Rightarrow> Inr (Dumps v))"

definition dumps_indent :: "nat \<Rightarrow> pyval \<Rightarrow> exn + json_text" where
  "dumps_indent n v =
     (case unserialisable v of
        Some c \<Rightarrow> Inl (TypeError_not_serializable c)
      | None \<Rightarrow> Inr (Dumps_indent n v))"

section \<open>Overall health: \<^verbatim>\<open>check_backup_health\<close>\<close>

text \<open>\<^verbatim>\<open>op.get('status')\<close>: only a dictionary has the method.\<close>

fun get_status :: "pyval \<Rightarrow> exn + pyval" where
  "get_status (PyDict d) = Inr (dict_get d ''status'' PyNone)"
| "get_status v = Inl (AttributeError v ''get'')"

text \<open>The comprehension \<^verbatim>\<open>[op for op in operations if op.get('status') == st]\<close>.\<close>

fun select_status :: "string \<Rightarrow> pyval list \<Rightarrow> exn + pyval list" where
  "select_status st [] = Inr []"
| "select_status st (op # ops) =
     (case get_status op of
        Inl e \<Rightarrow> Inl e
      | Inr v \<Rightarrow>
          (case select_status st ops of
             Inl e \<Rightarrow> Inl e
           | Inr sel \<Rightarrow> Inr (if v = PyStr st then op # sel else sel)))"

definition check_backup_health :: "dict \<Rightarrow> exn + string" where
  "check_backup_health backup_results =
     (let operations = dict_get backup_results ''backup_operations'' (PyList []) in
      if \<not> truthy operations then Inr ''FAILED''
      else
        (case py_iter operations of
           Inl e \<Rightarrow> Inl e
         | Inr ops \<Rightarrow>
             (case select_status ''FAILED'' ops of
                Inl e \<Rightarrow> Inl e
              | Inr failed_operations \<Rightarrow>
                  (case select_status ''WARNING'' ops of
                     Inl e \<Rightarrow> Inl e
                   | Inr warning_operations \<Rightarrow>
                       if failed_operations \<noteq> [] then Inr ''FAILED''
                       else if warning_operations \<noteq> [] then Inr ''WARNING''
                       else Inr ''SUCCESS''))))"

section \<open>Configuration, collaborators and effects\<close>

text \<open>
  The three environment variables and the cloud clients are what a run is given. Each
  client call either raises an instance of \<^verbatim>\<open>Exception\<close> or returns the part of
  the response the source reads. A reading of the clock is kept as the two renderings
  the source asks for. Log messages are not part of the model.
\<close>

record datetime =
  isoformat :: string
  strftime_Ymd_HMS :: string

record put_request =
  Bucket :: string
  Key :: string
  Body :: json_text
  ContentType :: string

record db_instance =
  DBInstanceIdentifier :: string
  BackupRetentionPeriod :: "int option"

record world =
  CLUSTER_NAME :: string
  S3_BUCKET :: string
  ENVIRONMENT :: string
  utcnow :: "nat \<Rightarrow> datetime"
  describe_cluster :: "string \<Rightarrow> exn + string"
  describe_db_instances :: "exn + db_instance list"
  describe_db_snapshots :: "string \<Rightarrow> exn + string list"
  put_object :: "put_request \<Rightarrow> exn option"

text \<open>
  \<open>describe_cluster\<close> gives \<^verbatim>\<open>cluster_info['cluster']['status']\<close>,
  \<open>describe_db_snapshots\<close> the identifiers in \<^verbatim>\<open>snapshots['DBSnapshots']\<close>, and
  \<open>put_object\<close> the exception the write raises, if any. \<open>utcnow w n\<close> is what the
  clock shows when it is read for the \<open>n\<close>-th time.

  What a run changes: the objects written to the bucket, in order, and how often the
  clock has been read.
\<close>

record sys =
  s3_objects :: "put_request list"
  clock_reads :: nat

definition now :: "world \<Rightarrow> sys \<Rightarrow> datetime \<times> sys" where
  "now w s = (utcnow w (clock_reads s), s\<lparr>clock_reads := Suc (clock_reads s)\<rparr>)"

definition s3_put :: "world \<Rightarrow> put_request \<Rightarrow> sys \<Rightarrow> (exn + unit) \<times> sys" where
  "s3_put w r s =
     (case put_object w r of
        Some e \<Rightarrow> (Inl e, s)
      | None \<Rightarrow> (Inr (), s\<lparr>s3_objects := s3_objects s @ [r]\<rparr>))"

section \<open>Step 1: \<^verbatim>\<open>backup_kubernetes_resources\<close>\<close>

text \<open>The body of the \<^verbatim>\<open>try\<close> block, then the function with its handler.\<close>

definition backup_kubernetes_resources_try :: "world \<Rightarrow> sys \<Rightarrow> (exn + dict) \<times> sys" where
  "backup_kubernetes_resources_try w s =
     (case describe_cluster w (CLUSTER_NAME w) of
        Inl e \<Rightarrow> (Inl e, s)
      | Inr cluster_status \<Rightarrow>
          if cluster_status \<noteq> ''ACTIVE'' then
            (Inr
               [(''operation'', PyStr ''kubernetes_backup''),
                (''status'', PyStr ''SKIPPED''),
                (''message'', PyStr (''Cluster status is '' @ cluster_status @ '', skipping backup''))],
             s)
          else
            (case now w s of (t, s1) \<Rightarrow>
               let backup_timestamp = strftime_Ymd_HMS t;
                   backup_key = ''k8s-backups/'' @ ENVIRONMENT w @ ''/'' @ backup_timestamp
                                @ ''/cluster-backup.tar.gz'';
                   backup_metadata = PyDict
                     [(''cluster_name'', PyStr (CLUSTER_NAME w)),
                      (''backup_timestamp'', PyStr backup_timestamp),
                      (''backup_type'', PyStr ''full''),
                      (''namespaces'',
                         PyList [PyStr ''agentscan'', PyStr ''kube-system'', PyStr ''monitoring'']),
                      (''resources_backed_up'',
                         PyList [PyStr ''deployments'', PyStr ''services'', PyStr ''configmaps'',
                                 PyStr ''secrets'', PyStr ''persistentvolumeclaims'',
                                 PyStr ''ingresses''])]
               in
                 (case dumps backup_metadata of
                    Inl e \<Rightarrow> (Inl e, s1)
                  | Inr text \<Rightarrow>
                 (case s3_put w
                    \<lparr>Bucket = S3_BUCKET w,
                     Key = ''k8s-backups/'' @ ENVIRONMENT w @ ''/'' @ backup_timestamp
                           @ ''/metadata.json'',
                     Body = text,
                     ContentType = ''application/json''\<rparr> s1 of
                    (Inl e, s2) \<Rightarrow> (Inl e, s2)
                  | (Inr u, s2) \<Rightarrow>
                      (Inr
                         [(''operation'', PyStr ''kubernetes_backup''),
                          (''status'', PyStr ''SUCCESS''),
                          (''backup_location'', PyStr (''s3://'' @ S3_BUCKET w @ ''/'' @ backup_key)),
                          (''metadata'', backup_metadata)],
                       s2)))))"

definition backup_kubernetes_resources :: "world \<Rightarrow> sys \<Rightarrow> dict \<times> sys" where
  "backup_kubernetes_resources w s =
     (case backup_kubernetes_resources_try w s of
        (Inr result, s') \<Rightarrow> (result, s')
      | (Inl e, s') \<Rightarrow>
          ([(''operation'', PyStr ''kubernetes_backup''),
            (''status'', PyStr ''FAILED''),
            (''error'', PyStr (str_of e))],
           s'))"

section \<open>Step 2: \<^verbatim>\<open>verify_rds_backups\<close>\<close>

text \<open>
  The loop over \<^verbatim>\<open>agentscan_instances\<close> that fills \<^verbatim>\<open>backup_status\<close>; a
  missing \<^verbatim>\<open>BackupRetentionPeriod\<close> counts as 0.
\<close>

fun backup_status_of :: "world \<Rightarrow> db_instance list \<Rightarrow> exn + dict list" where
  "backup_status_of w [] = Inr []"
| "backup_status_of w (instance # rest) =
     (let instance_id = DBInstanceIdentifier instance;
          backup_retention = (case BackupRetentionPeriod instance of None \<Rightarrow> 0 | Some n \<Rightarrow> n)
      in
        if backup_retention > 0 then
          (case describe_db_snapshots w instance_id of
             Inl e \<Rightarrow> Inl e
           | Inr snapshots \<Rightarrow>
               let recent_snapshots = int (length snapshots) in
                 (case backup_status_of w rest of
                    Inl e \<Rightarrow> Inl e
                  | Inr entries \<Rightarrow>
                      Inr ([(''instance_id'', PyStr instance_id),
                            (''backup_retention_days'', PyInt backup_retention),
                            (''recent_snapshots'', PyInt recent_snapshots),
                            (''status'',
                               PyStr (if recent_snapshots > 0 then ''HEALTHY'' else ''WARNING''))]
                           # entries)))
        else
          (case backup_status_of w rest of
             Inl e \<Rightarrow> Inl e
           | Inr entries \<Rightarrow>
               Inr ([(''instance_id'', PyStr instance_id),
                     (''backup_retention_days'', PyInt backup_retention),
                     (''status'', PyStr ''DISABLED'')]
                    # entries)))"

text \<open>
  \<^verbatim>\<open>all(status['status'] in ['HEALTHY', 'WARNING'] for status in backup_status)\<close>,
  which stops at the first entry that fails the test.
\<close>

fun all_healthy_or_warning :: "dict list \<Rightarrow> exn + bool" where
  "all_healthy_or_warning [] = Inr True"
| "all_healthy_or_warning (status # rest) =
     (case dict_getitem status ''status'' of
        Inl e \<Rightarrow> Inl e
      | Inr v \<Rightarrow>
          if v \<in> set [PyStr ''HEALTHY'', PyStr ''WARNING''] then all_healthy_or_warning rest
          else Inr False)"

definition verify_rds_backups_try :: "world \<Rightarrow> sys \<Rightarrow> (exn + dict) \<times> sys" where
  "verify_rds_backups_try w s =
     (case describe_db_instances w of
        Inl e \<Rightarrow> (Inl e, s)
      | Inr db_instances \<Rightarrow>
          let agentscan_instances =
                filter (\<lambda>instance. sublist (ENVIRONMENT w) (DBInstanceIdentifier instance))
                  db_instances
          in
            (case backup_status_of w agentscan_instances of
               Inl e \<Rightarrow> (Inl e, s)
             | Inr backup_status \<Rightarrow>
                 (case all_healthy_or_warning backup_status of
                    Inl e \<Rightarrow> (Inl e, s)
                  | Inr healthy \<Rightarrow>
                      let overall_rds_status = (if healthy then ''SUCCESS'' else ''FAILED'') in
                        (Inr
                           [(''operation'', PyStr ''rds_backup_verification''),
                            (''status'', PyStr overall_rds_status),
                            (''instances'', PyList (map PyDict backup_status))],
                         s))))"

definition verify_rds_backups :: "world \<Rightarrow> sys \<Rightarrow> dict \<times> sys" where
  "verify_rds_backups w s =
     (case verify_rds_backups_try w s of
        (Inr result, s') \<Rightarrow> (result, s')
      | (Inl e, s') \<Rightarrow>
          ([(''operation'', PyStr ''rds_backup_verification''),
            (''status'', PyStr ''FAILED''),
            (''error'', PyStr (str_of e))],
           s'))"

section \<open>Step 3: \<^verbatim>\<open>backup_application_data\<close>\<close>

text \<open>The fixed catalogue: type, description, size in MB, status.\<close>

definition app_backup_items :: "(string \<times> string \<times> int \<times> string) list" where
  "app_backup_items =
     [(''configuration'', ''Application configuration files'', 5, ''SUCCESS''),
      (''scan_results'', ''Historical scan results and reports'', 1024, ''SUCCESS''),
      (''ml_models'', ''Machine learning model artifacts'', 256, ''SUCCESS''),
      (''audit_logs'', ''Security and audit logs'', 128, ''SUCCESS'')]"

fun item_dict :: "string \<times> string \<times> int \<times> string \<Rightarrow> pyval" where
  "item_dict (ty, description, size_mb, st) =
     PyDict [(''type'', PyStr ty), (''description'', PyStr description),
             (''size_mb'', PyInt size_mb), (''status'', PyStr st)]"

definition backup_application_data_try :: "world \<Rightarrow> sys \<Rightarrow> (exn + dict) \<times> sys" where
  "backup_application_data_try w s =
     (case now w s of (t, s1) \<Rightarrow>
        let backup_timestamp = strftime_Ymd_HMS t;
            backup_manifest = PyDict
              [(''backup_timestamp'', PyStr backup_timestamp),
               (''environment'', PyStr (ENVIRONMENT w)),
               (''backup_items'', PyList (map item_dict app_backup_items)),
               (''total_size_mb'',
                  PyInt (sum_list (map (\<lambda>(ty, description, size_mb, st). size_mb)
                                     app_backup_items)))];
            manifest_key = ''app-backups/'' @ ENVIRONMENT w @ ''/'' @ backup_timestamp
                           @ ''/manifest.json''
        in
          (case dumps backup_manifest of
             Inl e \<Rightarrow> (Inl e, s1)
           | Inr text \<Rightarrow>
          (case s3_put w
             \<lparr>Bucket = S3_BUCKET w, Key = manifest_key, Body = text,
              ContentType = ''application/json''\<rparr> s1 of
             (Inl e, s2) \<Rightarrow> (Inl e, s2)
           | (Inr u, s2) \<Rightarrow>
               (Inr
                  [(''operation'', PyStr ''application_data_backup''),
                   (''status'', PyStr ''SUCCESS''),
                   (''backup_location'',
                      PyStr (''s3://'' @ S3_BUCKET w @ ''/app-backups/'' @ ENVIRONMENT w @ ''/''
                             @ backup_timestamp @ ''/'')),
                   (''manifest'', backup_manifest)],
                s2))))"

definition backup_application_data :: "world \<Rightarrow> sys \<Rightarrow> dict \<times> sys" where
  "backup_application_data w s =
     (case backup_application_data_try w s of
        (Inr result, s') \<Rightarrow> (result, s')
      | (Inl e, s') \<Rightarrow>
          ([(''operation'', PyStr ''application_data_backup''),
            (''status'', PyStr ''FAILED''),
            (''error'', PyStr (str_of e))],
           s'))"

section \<open>Step 4: \<^verbatim>\<open>upload_backup_metadata\<close>\<close>

definition upload_backup_metadata_try :: "dict \<Rightarrow> world \<Rightarrow> sys \<Rightarrow> (exn + dict) \<times> sys" where
  "upload_backup_metadata_try backup_results w s =
     (case now w s of (t, s1) \<Rightarrow>
        let timestamp = strftime_Ymd_HMS t;
            metadata_key = ''backup-reports/'' @ ENVIRONMENT w @ ''/'' @ timestamp
                           @ ''/backup-report.json''
        in
          (case dumps_indent 2 (PyDict backup_results) of
             Inl e \<Rightarrow> (Inl e, s1)
           | Inr text \<Rightarrow>
          (case s3_put w
             \<lparr>Bucket = S3_BUCKET w, Key = metadata_key, Body = text,
              ContentType = ''application/json''\<rparr> s1 of
             (Inl e, s2) \<Rightarrow> (Inl e, s2)
           | (Inr u, s2) \<Rightarrow>
               (Inr
                  [(''operation'', PyStr ''metadata_upload''),
                   (''status'', PyStr ''SUCCESS''),
                   (''location'', PyStr (''s3://'' @ S3_BUCKET w @ ''/'' @ metadata_key))],
                s2))))"

definition upload_backup_metadata :: "dict \<Rightarrow> world \<Rightarrow> sys \<Rightarrow> dict \<times> sys" where
  "upload_backup_metadata backup_results w s =
     (case upload_backup_metadata_try backup_results w s of
        (Inr result, s') \<Rightarrow> (result, s')
      | (Inl e, s') \<Rightarrow>
          ([(''operation'', PyStr ''metadata_upload''),
            (''status'', PyStr ''FAILED''),
            (''error'', PyStr (str_of e))],
           s'))"

section \<open>The entry point: \<^verbatim>\<open>handler\<close>\<close>

record response =
  statusCode :: int
  body :: json_text

text \<open>
  What a call can raise into the handler: an instance of \<^verbatim>\<open>Exception\<close>, which
  \<^verbatim>\<open>except Exception\<close> catches, or of another \<^verbatim>\<open>BaseException\<close> class
  (\<^verbatim>\<open>KeyboardInterrupt\<close>, \<^verbatim>\<open>SystemExit\<close>), which it does not catch.
\<close>

datatype raised = Exception exn | BaseException string

text \<open>
  The handler calls the four step functions by their module-level names. They are taken
  as a parameter here, so that a run in which one of them is replaced, raises, or
  returns something else than a dictionary can be described; \<open>source_steps\<close> binds the
  names to the functions of the source.
\<close>

record step_functions =
  call_backup_kubernetes_resources :: "world \<Rightarrow> sys \<Rightarrow> (raised + pyval) \<times> sys"
  call_verify_rds_backups :: "world \<Rightarrow> sys \<Rightarrow> (raised + pyval) \<times> sys"
  call_backup_application_data :: "world \<Rightarrow> sys \<Rightarrow> (raised + pyval) \<times> sys"
  call_upload_backup_metadata :: "dict \<Rightarrow> world \<Rightarrow> sys \<Rightarrow> (raised + pyval) \<times> sys"

definition returning :: "dict \<times> sys \<Rightarrow> (raised + pyval) \<times> sys" where
  "returning r = (Inr (PyDict (fst r)), snd r)"

definition source_steps :: step_functions where
  "source_steps =
     \<lparr>call_backup_kubernetes_resources = (\<lambda>w s. returning (backup_kubernetes_resources w s)),
      call_verify_rds_backups = (\<lambda>w s. returning (verify_rds_backups w s)),
      call_backup_application_data = (\<lambda>w s. returning (backup_application_data w s)),
      call_upload_backup_metadata =
        (\<lambda>backup_results w s. returning (upload_backup_metadata backup_results w s))\<rparr>"

text \<open>\<^verbatim>\<open>backup_results['backup_operations'].append(result)\<close>.\<close>

definition append_operation :: "pyval \<Rightarrow> dict \<Rightarrow> exn + dict" where
  "append_operation result backup_results =
     (case dict_getitem backup_results ''backup_operations'' of
        Inl e \<Rightarrow> Inl e
      | Inr v \<Rightarrow>
          (case v of
             PyList ops \<Rightarrow>
               Inr (dict_set ''backup_operations'' (PyList (ops @ [result])) backup_results)
           | _ \<Rightarrow> Inl (AttributeError v ''append'')))"

text \<open>
  One numbered pair of lines of the handler: call a step, append its result. An
  exception leaves \<^verbatim>\<open>backup_results\<close> as it was before the call, and the handler's
  \<^verbatim>\<open>except\<close> branch goes on from that dictionary.
\<close>

definition call_and_append ::
  "(sys \<Rightarrow> (raised + pyval) \<times> sys) \<Rightarrow> dict \<Rightarrow> sys \<Rightarrow> (raised \<times> dict + dict) \<times> sys" where
  "call_and_append step backup_results s =
     (case step s of
        (Inl x, s') \<Rightarrow> (Inl (x, backup_results), s')
      | (Inr result, s') \<Rightarrow>
          (case append_operation result backup_results of
             Inl e \<Rightarrow> (Inl (Exception e, backup_results), s')
           | Inr backup_results' \<Rightarrow> (Inr backup_results', s')))"

text \<open>
  The \<^verbatim>\<open>try\<close> block, its \<^verbatim>\<open>return\<close> with the call of \<^verbatim>\<open>json.dumps\<close>
  included: the response, or what was raised together with \<^verbatim>\<open>backup_results\<close> as
  it stood then.
\<close>

definition handler_try ::
  "step_functions \<Rightarrow> world \<Rightarrow> dict \<Rightarrow> sys \<Rightarrow> (raised \<times> dict + response) \<times> sys" where
  "handler_try fs w br0 s0 =
     (case call_and_append (call_backup_kubernetes_resources fs w) br0 s0 of
        (Inl x, s1) \<Rightarrow> (Inl x, s1)
      | (Inr br1, s1) \<Rightarrow>
     (case call_and_append (call_verify_rds_backups fs w) br1 s1 of
        (Inl x, s2) \<Rightarrow> (Inl x, s2)
      | (Inr br2, s2) \<Rightarrow>
     (case call_and_append (call_backup_application_data fs w) br2 s2 of
        (Inl x, s3) \<Rightarrow> (Inl x, s3)
      | (Inr br3, s3) \<Rightarrow>
     (case call_and_append (call_upload_backup_metadata fs br3 w) br3 s3 of
        (Inl x, s4) \<Rightarrow> (Inl x, s4)
      | (Inr br4, s4) \<Rightarrow>
     (case check_backup_health br4 of
        Inl e \<Rightarrow> (Inl (Exception e, br4), s4)
      | Inr overall_status \<Rightarrow>
          let br5 = dict_set ''overall_status'' (PyStr overall_status) br4 in
            (case dumps (PyDict br5) of
               Inl e \<Rightarrow> (Inl (Exception e, br5), s4)
             | Inr text \<Rightarrow> (Inr \<lparr>statusCode = 200, body = text\<rparr>, s4)))))))"

text \<open>
  What the handler does: it returns a response, or an exception leaves it. The
  \<^verbatim>\<open>except\<close> branch calls \<^verbatim>\<open>json.dumps\<close> outside any \<^verbatim>\<open>try\<close>. With
  \<open>source_steps\<close> this is the handler of the source.
\<close>

definition handler_calling ::
  "step_functions \<Rightarrow> world \<Rightarrow> sys \<Rightarrow> (raised + response) \<times> sys" where
  "handler_calling fs w s0 =
     (case now w s0 of (t, s) \<Rightarrow>
        let backup_results =
              [(''timestamp'', PyStr (isoformat t)),
               (''environment'', PyStr (ENVIRONMENT w)),
               (''cluster_name'', PyStr (CLUSTER_NAME w)),
               (''backup_operations'', PyList [])]
        in
          (case handler_try fs w backup_results s of
             (Inr resp, s') \<Rightarrow> (Inr resp, s')
           | (Inl (x, br), s') \<Rightarrow>
               (case x of
                  BaseException b \<Rightarrow> (Inl (BaseException b), s')
                | Exception e \<Rightarrow>
                    let br' = dict_set ''overall_status'' (PyStr ''FAILED'')
                                (dict_set ''error'' (PyStr (str_of e)) br)
                    in
                      (case dumps (PyDict br') of
                         Inl e' \<Rightarrow> (Inl (Exception e'), s')
                       | Inr text \<Rightarrow> (Inr \<lparr>statusCode = 500, body = text\<rparr>, s')))))"

definition handler :: "world \<Rightarrow> sys \<Rightarrow> (raised + response) \<times> sys" where
  "handler w s0 = handler_calling source_steps w s0"

section \<open>Reading reports\<close>

text \<open>
  Reading a serialised dictionary back, as \<^verbatim>\<open>json.loads\<close> does, and the parts of a
  response and of a report the statements below speak about. A run that raised has no
  report and no status code.
\<close>

fun loads :: "json_text \<Rightarrow> dict" where
  "loads (Dumps (PyDict d)) = d"
| "loads (Dumps_indent n (PyDict d)) = d"
| "loads t = []"

definition report_of :: "(raised + response) \<times> sys \<Rightarrow> dict" where
  "report_of r = (case fst r of Inr resp \<Rightarrow> loads (body resp) | Inl x \<Rightarrow> [])"

definition status_code_of :: "(raised + response) \<times> sys \<Rightarrow> int option" where
  "status_code_of r = (case fst r of Inr resp \<Rightarrow> Some (statusCode resp) | Inl x \<Rightarrow> None)"

definition operations_of :: "dict \<Rightarrow> pyval list" where
  "operations_of report =
     (case map_of report ''backup_operations'' of Some (PyList ops) \<Rightarrow> ops | _ \<Rightarrow> [])"

definition op_status :: "dict \<Rightarrow> pyval" where
  "op_status d = dict_get d ''status'' PyNone"

text \<open>The report of a run started at \<open>t\<close> that holds the step results \<open>ops\<close>.\<close>

definition report_with :: "datetime \<Rightarrow> world \<Rightarrow> pyval list \<Rightarrow> dict" where
  "report_with t w ops =
     [(''timestamp'', PyStr (isoformat t)),
      (''environment'', PyStr (ENVIRONMENT w)),
      (''cluster_name'', PyStr (CLUSTER_NAME w)),
      (''backup_operations'', PyList ops)]"

text \<open>The result a step returns when its \<^verbatim>\<open>try\<close> block raised \<open>e\<close>.\<close>

definition failed_result :: "string \<Rightarrow> exn \<Rightarrow> dict" where
  "failed_result name e =
     [(''operation'', PyStr name), (''status'', PyStr ''FAILED''), (''error'', PyStr (str_of e))]"

text \<open>A dictionary without a key.\<close>

definition dict_del :: "string \<Rightarrow> dict \<Rightarrow> dict" where
  "dict_del k d = filter (\<lambda>kv. fst kv \<noteq> k) d"

text \<open>
  The write \<^verbatim>\<open>upload_backup_metadata\<close> asks of the bucket (lines 295 to 300 of the
  source) when it is called with \<open>backup_results\<close> in state \<open>s\<close> and
  \<^verbatim>\<open>json.dumps\<close> has succeeded.
\<close>

definition upload_request :: "dict \<Rightarrow> world \<Rightarrow> sys \<Rightarrow> put_request" where
  "upload_request backup_results w s =
     \<lparr>Bucket = S3_BUCKET w,
      Key = ''backup-reports/'' @ ENVIRONMENT w @ ''/''
            @ strftime_Ymd_HMS (utcnow w (clock_reads s)) @ ''/backup-report.json'',
      Body = Dumps_indent 2 (PyDict backup_results),
      ContentType = ''application/json''\<rparr>"

text \<open>
  What a run gave, with the \<^verbatim>\<open>timestamp\<close> of the report left out: the exception,
  or the status code and the rest of the report.
\<close>

definition without_timestamp :: "(raised + response) \<times> sys \<Rightarrow> raised + int \<times> dict" where
  "without_timestamp r =
     (case fst r of
        Inl x \<Rightarrow> Inl x
      | Inr resp \<Rightarrow> Inr (statusCode resp, dict_del ''timestamp'' (loads (body resp))))"

section \<open>The evaluation rule of the specification\<close>

text \<open>
  The rule of the specification's health evaluator, in its words: an empty sequence is
  FAILED; else any FAILED entry gives FAILED; else any WARNING entry gives WARNING; else
  SUCCESS. It is compared with \<open>check_backup_health\<close> below.
\<close>

definition evaluate :: "dict list \<Rightarrow> string" where
  "evaluate ds =
     (if ds = [] then ''FAILED''
      else if \<exists>d\<in>set ds. op_status d = PyStr ''FAILED'' then ''FAILED''
      else if \<exists>d\<in>set ds. op_status d = PyStr ''WARNING'' then ''WARNING''
      else ''SUCCESS'')"

section \<open>Example runs\<close>

text \<open>
  A deployment in which every collaborator answers and nothing fails, with a clock that
  stands still during the run; the other worlds change one collaborator each.
\<close>

definition frozen_clock :: "string \<Rightarrow> string \<Rightarrow> nat \<Rightarrow> datetime" where
  "frozen_clock iso_text ymd_text n = \<lparr>isoformat = iso_text, strftime_Ymd_HMS = ymd_text\<rparr>"

definition fresh :: sys where
  "fresh = \<lparr>s3_objects = [], clock_reads = 0\<rparr>"

definition example_world :: world where
  "example_world =
     \<lparr>CLUSTER_NAME = ''main'', S3_BUCKET = ''backups'', ENVIRONMENT = ''prod'',
      utcnow = frozen_clock ''2025-01-01T00:00:00+00:00'' ''20250101-000000'',
      describe_cluster = (\<lambda>name. Inr ''ACTIVE''),
      describe_db_instances =
        Inr [\<lparr>DBInstanceIdentifier = ''agentscan-prod-db'', BackupRetentionPeriod = Some 7\<rparr>],
      describe_db_snapshots = (\<lambda>instance_id. Inr [''rds:agentscan-prod-db-2025-01-01'']),
      put_object = (\<lambda>r. None)\<rparr>"

definition world_sink_down :: world where
  "world_sink_down =
     example_world
       \<lparr>put_object :=
          (\<lambda>r. if prefix ''backup-reports/'' (Key r) then Some (Exn ''AccessDenied'') else None)\<rparr>"

definition world_one_disabled :: world where
  "world_one_disabled =
     example_world
       \<lparr>describe_db_instances :=
          Inr [\<lparr>DBInstanceIdentifier = ''agentscan-prod-archive'', BackupRetentionPeriod = Some 0\<rparr>,
               \<lparr>DBInstanceIdentifier = ''agentscan-prod-db'', BackupRetentionPeriod = Some 7\<rparr>]\<rparr>"

definition world_other_env :: world where
  "world_other_env =
     example_world
       \<lparr>describe_db_instances :=
          Inr [\<lparr>DBInstanceIdentifier = ''agentscan-dev-db'', BackupRetentionPeriod = Some 7\<rparr>]\<rparr>"

definition world_silent_error :: world where
  "world_silent_error = example_world\<lparr>describe_cluster := (\<lambda>name. Inl (Exn []))\<rparr>"

definition world_all_raise :: world where
  "world_all_raise =
     example_world
       \<lparr>describe_cluster := (\<lambda>name. Inl (Exn ''cluster not found'')),
        describe_db_instances := Inl (Exn ''access denied''),
        put_object := (\<lambda>r. Some (Exn ''no such bucket''))\<rparr>"

definition world_next_day :: world where
  "world_next_day =
     example_world\<lparr>utcnow := frozen_clock ''2025-01-02T00:00:00+00:00'' ''20250102-000000''\<rparr>"

text \<open>Step functions replaced by stubs: the \<open>k\<close>-th raises, the others return a fixed result.\<close>

definition stub_result :: "string \<Rightarrow> pyval" where
  "stub_result name = PyDict [(''operation'', PyStr name), (''status'', PyStr ''SUCCESS'')]"

definition stub_call :: "nat \<Rightarrow> nat \<Rightarrow> string \<Rightarrow> sys \<Rightarrow> (raised + pyval) \<times> sys" where
  "stub_call k i name s =
     (if i = k then Inl (Exception (Exn ''boom'')) else Inr (stub_result name), s)"

definition stub_steps :: "nat \<Rightarrow> step_functions" where
  "stub_steps k =
     \<lparr>call_backup_kubernetes_resources = (\<lambda>w. stub_call k 1 ''kubernetes_backup''),
      call_verify_rds_backups = (\<lambda>w. stub_call k 2 ''rds_backup_verification''),
      call_backup_application_data = (\<lambda>w. stub_call k 3 ''application_data_backup''),
      call_upload_backup_metadata = (\<lambda>backup_results w. stub_call k 4 ''metadata_upload'')\<rparr>"




section \<open>Shapes of responses\<close>

text \<open>
  The response of the handler's \<^verbatim>\<open>except\<close> branch when \<open>e\<close> was raised after the
  step results \<open>ops\<close> had been appended.
\<close>

definition failure_response :: "datetime \<Rightarrow> world \<Rightarrow> pyval list \<Rightarrow> exn \<Rightarrow> response" where
  "failure_response t w ops e =
     \<lparr>statusCode = 500,
      body = Dumps (PyDict (report_with t w ops
                            @ [(''error'', PyStr (str_of e)),
                               (''overall_status'', PyStr ''FAILED'')]))\<rparr>"

text \<open>
  How a run ends when \<open>x\<close> is raised in the \<^verbatim>\<open>try\<close> block after the results
  \<open>ops\<close> had been appended: what is no \<^verbatim>\<open>Exception\<close> leaves the handler; an
  \<^verbatim>\<open>Exception\<close> is answered with \<open>failure_response\<close> when every result can be
  encoded, and otherwise \<^verbatim>\<open>json.dumps\<close> raises out of the \<^verbatim>\<open>except\<close> branch.
\<close>

definition except_outcome :: "datetime \<Rightarrow> world \<Rightarrow> pyval list \<Rightarrow> raised \<Rightarrow> raised + response" where
  "except_outcome t w ops x =
     (case x of
        BaseException b \<Rightarrow> Inl (BaseException b)
      | Exception e \<Rightarrow>
          (case unserialisable (PyList ops) of
             Some c \<Rightarrow> Inl (Exception (TypeError_not_serializable c))
           | None \<Rightarrow> Inr (failure_response t w ops e)))"

text \<open>How a run ends when all four calls have returned the results \<open>ops\<close>.\<close>

definition try_outcome :: "datetime \<Rightarrow> world \<Rightarrow> pyval list \<Rightarrow> raised + response" where
  "try_outcome t w ops =
     (case check_backup_health (report_with t w ops) of
        Inl e \<Rightarrow> except_outcome t w ops (Exception e)
      | Inr st \<Rightarrow>
          (case unserialisable (PyList ops) of
             Some c \<Rightarrow> Inl (Exception (TypeError_not_serializable c))
           | None \<Rightarrow>
               Inr \<lparr>statusCode = 200,
                    body = Dumps (PyDict (report_with t w ops
                                          @ [(''overall_status'', PyStr st)]))\<rparr>))"

section \<open>The health rule\<close>

lemma select_status_dicts:
  "select_status st (map PyDict ds) =
     Inr (map PyDict (filter (\<lambda>d. op_status d = PyStr st) ds))"
  by (induction ds) (simp_all add: op_status_def)

text \<open>On a list of dictionaries the source computes the rule of the specification.\<close>

lemma check_backup_health_evaluate:
  assumes "map_of br ''backup_operations'' = Some (PyList (map PyDict ds))"
  shows "check_backup_health br = Inr (evaluate ds)"
  using assms
  by (simp add: check_backup_health_def evaluate_def dict_get_def select_status_dicts
      filter_empty_conv)

lemma op_status_eq_iff:
  "op_status d = PyStr st \<longleftrightarrow> map_of d ''status'' = Some (PyStr st)"
  by (simp add: op_status_def dict_get_def split: option.splits)

lemma map_of_dict_set: "map_of (dict_set k v d) k = Some v"
  by (induction d) auto

lemma evaluate_drop_skipped:
  assumes "filter (\<lambda>d. op_status d \<noteq> PyStr ''SKIPPED'') ds \<noteq> []"
  shows "evaluate (filter (\<lambda>d. op_status d \<noteq> PyStr ''SKIPPED'') ds) = evaluate ds"
proof -
  have "ds \<noteq> []" using assms by auto
  with assms show ?thesis by (auto simp add: evaluate_def)
qed

text \<open>
  C4. The health evaluation returns FAILED on the empty sequence of step results, and on
  every sequence that holds at least one result with status FAILED, wherever it stands
  and whatever else the sequence holds.
\<close>

theorem check_backup_health_failed:
  assumes "map_of br ''backup_operations'' = Some (PyList (map PyDict ds))"
      and "ds = [] \<or> (\<exists>d\<in>set ds. op_status d = PyStr ''FAILED'')"
  shows "check_backup_health br = Inr ''FAILED''"
  using assms(2) by (auto simp add: check_backup_health_evaluate [OF assms(1)] evaluate_def)

theorem check_backup_health_failed_witness:
  "map_of [(''backup_operations'', PyList [])] ''backup_operations''
     = Some (PyList (map PyDict [])) \<and>
   check_backup_health [(''backup_operations'', PyList [])] = Inr ''FAILED'' \<and>
   map_of [(''backup_operations'',
              PyList [PyDict [(''status'', PyStr ''SKIPPED'')],
                      PyDict [(''status'', PyStr ''WARNING'')],
                      PyDict [(''status'', PyStr ''FAILED'')],
                      PyDict [(''status'', PyStr ''SUCCESS'')]])] ''backup_operations''
     = Some (PyList (map PyDict [[(''status'', PyStr ''SKIPPED'')],
                                 [(''status'', PyStr ''WARNING'')],
                                 [(''status'', PyStr ''FAILED'')],
                                 [(''status'', PyStr ''SUCCESS'')]])) \<and>
   op_status [(''status'', PyStr ''FAILED'')] = PyStr ''FAILED'' \<and>
   check_backup_health
     [(''backup_operations'',
         PyList [PyDict [(''status'', PyStr ''SKIPPED'')],
                 PyDict [(''status'', PyStr ''WARNING'')],
                 PyDict [(''status'', PyStr ''FAILED'')],
                 PyDict [(''status'', PyStr ''SUCCESS'')]])]
     = Inr ''FAILED''"
  using check_backup_health_failed [of "[(''backup_operations'', PyList [])]" "[]"]
        check_backup_health_failed
          [of "[(''backup_operations'',
                   PyList [PyDict [(''status'', PyStr ''SKIPPED'')],
                           PyDict [(''status'', PyStr ''WARNING'')],
                           PyDict [(''status'', PyStr ''FAILED'')],
                           PyDict [(''status'', PyStr ''SUCCESS'')]])]"
              "[[(''status'', PyStr ''SKIPPED'')],
                [(''status'', PyStr ''WARNING'')],
                [(''status'', PyStr ''FAILED'')],
                [(''status'', PyStr ''SUCCESS'')]]"]
  by (simp add: op_status_def dict_get_def)

text \<open>
  C5, as the source has it. For every sequence of step results without a FAILED entry:
  if some entry has status WARNING the evaluation returns WARNING; if the sequence is
  not empty and every entry has status SUCCESS or SKIPPED it returns SUCCESS; and
  leaving out the SKIPPED entries does not change the result as long as an entry
  remains. (The empty sequence, and a sequence of SKIPPED entries only, are where the
  statement without "not empty" fails: see the counterexample.)
\<close>

theorem check_backup_health_without_failed:
  assumes "map_of br ''backup_operations'' = Some (PyList (map PyDict ds))"
      and "\<forall>d\<in>set ds. op_status d \<noteq> PyStr ''FAILED''"
  shows "((\<exists>d\<in>set ds. op_status d = PyStr ''WARNING'') \<longrightarrow>
            check_backup_health br = Inr ''WARNING'') \<and>
         (ds \<noteq> [] \<and> (\<forall>d\<in>set ds. op_status d \<in> {PyStr ''SUCCESS'', PyStr ''SKIPPED''}) \<longrightarrow>
            check_backup_health br = Inr ''SUCCESS'') \<and>
         (filter (\<lambda>d. op_status d \<noteq> PyStr ''SKIPPED'') ds \<noteq> [] \<longrightarrow>
            check_backup_health
              (dict_set ''backup_operations''
                 (PyList (map PyDict (filter (\<lambda>d. op_status d \<noteq> PyStr ''SKIPPED'') ds))) br)
            = check_backup_health br)"
proof (intro conjI impI)
  assume "\<exists>d\<in>set ds. op_status d = PyStr ''WARNING''"
  with assms(2) show "check_backup_health br = Inr ''WARNING''"
    by (auto simp add: check_backup_health_evaluate [OF assms(1)] evaluate_def)
next
  assume "ds \<noteq> [] \<and> (\<forall>d\<in>set ds. op_status d \<in> {PyStr ''SUCCESS'', PyStr ''SKIPPED''})"
  then show "check_backup_health br = Inr ''SUCCESS''"
    by (auto simp add: check_backup_health_evaluate [OF assms(1)] evaluate_def)
next
  assume rest: "filter (\<lambda>d. op_status d \<noteq> PyStr ''SKIPPED'') ds \<noteq> []"
  have "check_backup_health
          (dict_set ''backup_operations''
             (PyList (map PyDict (filter (\<lambda>d. op_status d \<noteq> PyStr ''SKIPPED'') ds))) br)
        = Inr (evaluate (filter (\<lambda>d. op_status d \<noteq> PyStr ''SKIPPED'') ds))"
    by (rule check_backup_health_evaluate) (rule map_of_dict_set)
  then show "check_backup_health
          (dict_set ''backup_operations''
             (PyList (map PyDict (filter (\<lambda>d. op_status d \<noteq> PyStr ''SKIPPED'') ds))) br)
        = check_backup_health br"
    by (simp add: evaluate_drop_skipped [OF rest] check_backup_health_evaluate [OF assms(1)])
qed

theorem check_backup_health_without_failed_witness:
  "check_backup_health
     [(''backup_operations'',
         PyList [PyDict [(''status'', PyStr ''SUCCESS'')],
                 PyDict [(''status'', PyStr ''SKIPPED'')],
                 PyDict [(''status'', PyStr ''WARNING'')]])] = Inr ''WARNING'' \<and>
   check_backup_health
     [(''backup_operations'',
         PyList [PyDict [(''status'', PyStr ''SKIPPED'')],
                 PyDict [(''status'', PyStr ''SUCCESS'')]])] = Inr ''SUCCESS'' \<and>
   check_backup_health
     [(''backup_operations'', PyList [PyDict [(''status'', PyStr ''SUCCESS'')]])]
   = check_backup_health
       [(''backup_operations'',
           PyList [PyDict [(''status'', PyStr ''SKIPPED'')],
                   PyDict [(''status'', PyStr ''SUCCESS'')]])]"
  using check_backup_health_without_failed
          [of "[(''backup_operations'',
                   PyList [PyDict [(''status'', PyStr ''SUCCESS'')],
                           PyDict [(''status'', PyStr ''SKIPPED'')],
                           PyDict [(''status'', PyStr ''WARNING'')]])]"
              "[[(''status'', PyStr ''SUCCESS'')],
                [(''status'', PyStr ''SKIPPED'')],
                [(''status'', PyStr ''WARNING'')]]"]
        check_backup_health_without_failed
          [of "[(''backup_operations'',
                   PyList [PyDict [(''status'', PyStr ''SKIPPED'')],
                           PyDict [(''status'', PyStr ''SUCCESS'')]])]"
              "[[(''status'', PyStr ''SKIPPED'')], [(''status'', PyStr ''SUCCESS'')]]"]
  by (simp add: op_status_def dict_get_def)

text \<open>
  The claim as worded fails on the empty sequence: it has no FAILED entry and each of its
  entries has status SUCCESS or SKIPPED, and the evaluation is FAILED; and one SKIPPED
  entry added to it changes the result to SUCCESS.
\<close>

theorem check_backup_health_without_failed_counterexample:
  "check_backup_health [(''backup_operations'', PyList [])] = Inr ''FAILED'' \<and>
   check_backup_health
     [(''backup_operations'', PyList [PyDict [(''status'', PyStr ''SKIPPED'')]])]
   = Inr ''SUCCESS''"
  by (simp add: check_backup_health_def dict_get_def)

text \<open>
  C9. A step result whose status is anything but exactly FAILED or WARNING, an
  unrecognised value such as DISABLED or no status at all, is neutral: every non-empty
  sequence of such results evaluates to SUCCESS.
\<close>

theorem check_backup_health_other_status_neutral:
  assumes "map_of br ''backup_operations'' = Some (PyList (map PyDict ds))"
      and "ds \<noteq> []"
      and "\<forall>d\<in>set ds. map_of d ''status'' \<noteq> Some (PyStr ''FAILED'')
                      \<and> map_of d ''status'' \<noteq> Some (PyStr ''WARNING'')"
  shows "check_backup_health br = Inr ''SUCCESS''"
  using assms(2,3)
  by (auto simp add: check_backup_health_evaluate [OF assms(1)] evaluate_def op_status_eq_iff)

theorem check_backup_health_other_status_neutral_witness:
  "map_of [(''status'', PyStr ''DISABLED'')] ''status'' \<noteq> Some (PyStr ''FAILED'') \<and>
   map_of [(''operation'', PyStr ''x'')] ''status'' = None \<and>
   map_of [(''status'', PyInt 3)] ''status'' \<noteq> Some (PyStr ''WARNING'') \<and>
   check_backup_health
     [(''backup_operations'',
         PyList [PyDict [(''status'', PyStr ''DISABLED'')],
                 PyDict [(''operation'', PyStr ''x'')],
                 PyDict [(''status'', PyInt 3)]])] = Inr ''SUCCESS''"
  using check_backup_health_other_status_neutral
          [of "[(''backup_operations'',
                   PyList [PyDict [(''status'', PyStr ''DISABLED'')],
                           PyDict [(''operation'', PyStr ''x'')],
                           PyDict [(''status'', PyInt 3)]])]"
              "[[(''status'', PyStr ''DISABLED'')],
                [(''operation'', PyStr ''x'')],
                [(''status'', PyInt 3)]]"]
  by simp

section \<open>The verification step\<close>

text \<open>
  C10. When no database instance carries the environment name in its identifier, the
  list of per-instance results is empty and the step's status is SUCCESS: the test that
  every instance is HEALTHY or WARNING holds of the empty list.
\<close>

theorem verify_rds_backups_no_instances:
  assumes "describe_db_instances w = Inr db_instances"
      and "\<forall>i\<in>set db_instances. \<not> sublist (ENVIRONMENT w) (DBInstanceIdentifier i)"
  shows "verify_rds_backups w s =
           ([(''operation'', PyStr ''rds_backup_verification''),
             (''status'', PyStr ''SUCCESS''),
             (''instances'', PyList [])], s)"
proof -
  have "filter (\<lambda>i. sublist (ENVIRONMENT w) (DBInstanceIdentifier i)) db_instances = []"
    using assms(2) by (simp add: filter_empty_conv)
  then show ?thesis
    by (simp add: verify_rds_backups_def verify_rds_backups_try_def assms(1))
qed

theorem verify_rds_backups_no_instances_witness:
  "describe_db_instances world_other_env
     = Inr [\<lparr>DBInstanceIdentifier = ''agentscan-dev-db'', BackupRetentionPeriod = Some 7\<rparr>] \<and>
   \<not> sublist (ENVIRONMENT world_other_env) ''agentscan-dev-db'' \<and>
   verify_rds_backups world_other_env fresh =
     ([(''operation'', PyStr ''rds_backup_verification''),
       (''status'', PyStr ''SUCCESS''),
       (''instances'', PyList [])], fresh)"
  using verify_rds_backups_no_instances
          [of world_other_env
              "[\<lparr>DBInstanceIdentifier = ''agentscan-dev-db'', BackupRetentionPeriod = Some 7\<rparr>]"
              fresh]
  by (simp add: world_other_env_def example_world_def sublist_code(3))

text \<open>
  C3, as the source has it. When the verification step sees exactly two instances of the
  environment, one with retention 0 and one with a positive retention and a recent
  snapshot, the per-instance results are DISABLED and HEALTHY and the step's own status
  is FAILED: DISABLED is neither HEALTHY nor WARNING.
\<close>

theorem verify_rds_backups_disabled_and_healthy:
  assumes "describe_db_instances w = Inr db_instances"
      and "filter (\<lambda>i. sublist (ENVIRONMENT w) (DBInstanceIdentifier i)) db_instances = [a, b]
           \<or> filter (\<lambda>i. sublist (ENVIRONMENT w) (DBInstanceIdentifier i)) db_instances = [b, a]"
      and "BackupRetentionPeriod a = Some 0"
      and "BackupRetentionPeriod b = Some n" and "0 < n"
      and "describe_db_snapshots w (DBInstanceIdentifier b) = Inr snapshots"
      and "snapshots \<noteq> []"
  shows "op_status (fst (verify_rds_backups w s)) = PyStr ''FAILED'' \<and>
         dict_get (fst (verify_rds_backups w s)) ''instances'' PyNone \<in>
           (\<lambda>entries. PyList (map PyDict entries)) `
             {[[(''instance_id'', PyStr (DBInstanceIdentifier a)),
                (''backup_retention_days'', PyInt 0),
                (''status'', PyStr ''DISABLED'')],
               [(''instance_id'', PyStr (DBInstanceIdentifier b)),
                (''backup_retention_days'', PyInt n),
                (''recent_snapshots'', PyInt (int (length snapshots))),
                (''status'', PyStr ''HEALTHY'')]],
              [[(''instance_id'', PyStr (DBInstanceIdentifier b)),
                (''backup_retention_days'', PyInt n),
                (''recent_snapshots'', PyInt (int (length snapshots))),
                (''status'', PyStr ''HEALTHY'')],
               [(''instance_id'', PyStr (DBInstanceIdentifier a)),
                (''backup_retention_days'', PyInt 0),
                (''status'', PyStr ''DISABLED'')]]}"
  using assms(2)
proof
  assume "filter (\<lambda>i. sublist (ENVIRONMENT w) (DBInstanceIdentifier i)) db_instances = [a, b]"
  then show ?thesis
    using assms(1,3-7)
    by (simp add: verify_rds_backups_def verify_rds_backups_try_def op_status_def dict_get_def
        dict_getitem_def)
next
  assume "filter (\<lambda>i. sublist (ENVIRONMENT w) (DBInstanceIdentifier i)) db_instances = [b, a]"
  then show ?thesis
    using assms(1,3-7)
    by (simp add: verify_rds_backups_def verify_rds_backups_try_def op_status_def dict_get_def
        dict_getitem_def)
qed

theorem verify_rds_backups_disabled_and_healthy_witness:
  "filter (\<lambda>i. sublist (ENVIRONMENT world_one_disabled) (DBInstanceIdentifier i))
     [\<lparr>DBInstanceIdentifier = ''agentscan-prod-archive'', BackupRetentionPeriod = Some 0\<rparr>,
      \<lparr>DBInstanceIdentifier = ''agentscan-prod-db'', BackupRetentionPeriod = Some 7\<rparr>]
   = [\<lparr>DBInstanceIdentifier = ''agentscan-prod-archive'', BackupRetentionPeriod = Some 0\<rparr>,
      \<lparr>DBInstanceIdentifier = ''agentscan-prod-db'', BackupRetentionPeriod = Some 7\<rparr>] \<and>
   describe_db_snapshots world_one_disabled ''agentscan-prod-db''
     = Inr [''rds:agentscan-prod-db-2025-01-01''] \<and>
   op_status (fst (verify_rds_backups world_one_disabled fresh)) = PyStr ''FAILED''"
  using verify_rds_backups_disabled_and_healthy
          [of world_one_disabled
              "[\<lparr>DBInstanceIdentifier = ''agentscan-prod-archive'', BackupRetentionPeriod = Some 0\<rparr>,
                \<lparr>DBInstanceIdentifier = ''agentscan-prod-db'', BackupRetentionPeriod = Some 7\<rparr>]"
              "\<lparr>DBInstanceIdentifier = ''agentscan-prod-archive'', BackupRetentionPeriod = Some 0\<rparr>"
              "\<lparr>DBInstanceIdentifier = ''agentscan-prod-db'', BackupRetentionPeriod = Some 7\<rparr>"
              7 "[''rds:agentscan-prod-db-2025-01-01'']" fresh]
  by (simp add: world_one_disabled_def example_world_def sublist_code(3))

text \<open>
  The claim as worded, SUCCESS for one DISABLED and one HEALTHY instance, fails on such a
  run: the step returns FAILED.
\<close>

theorem verify_rds_backups_disabled_counterexample:
  "fst (verify_rds_backups world_one_disabled fresh) =
     [(''operation'', PyStr ''rds_backup_verification''),
      (''status'', PyStr ''FAILED''),
      (''instances'',
         PyList [PyDict [(''instance_id'', PyStr ''agentscan-prod-archive''),
                         (''backup_retention_days'', PyInt 0),
                         (''status'', PyStr ''DISABLED'')],
                 PyDict [(''instance_id'', PyStr ''agentscan-prod-db''),
                         (''backup_retention_days'', PyInt 7),
                         (''recent_snapshots'', PyInt 1),
                         (''status'', PyStr ''HEALTHY'')]])]"
  by (simp add: verify_rds_backups_def verify_rds_backups_try_def world_one_disabled_def
      example_world_def sublist_code(3) dict_getitem_def)

section \<open>What the source's steps return can be encoded\<close>

lemma first_some_single: "first_some [a] = a"
  by (cases a) simp_all

lemma first_some_None_tail: "first_some [a, None] = a" "first_some [a, None, None] = a"
  by (cases a; simp)+

lemma first_some_Cons: "first_some (a # xs) = (case a of None \<Rightarrow> first_some xs | Some c \<Rightarrow> Some c)"
  by (cases a) simp_all

lemma unserialisable_report:
  "unserialisable (PyDict (report_with t w ops)) = unserialisable (PyList ops)"
  "unserialisable (PyDict (report_with t w ops @ [(k1, PyStr x1)])) = unserialisable (PyList ops)"
  "unserialisable (PyDict (report_with t w ops @ [(k1, PyStr x1), (k2, PyStr x2)]))
     = unserialisable (PyList ops)"
  by (simp_all add: report_with_def first_some_single first_some_None_tail)

lemma backup_status_of_serialisable:
  "backup_status_of w instances = Inr entries \<Longrightarrow>
     first_some (map (unserialisable \<circ> PyDict) entries) = None"
proof (induction instances arbitrary: entries)
  case Nil
  then show ?case by simp
next
  case (Cons i rest)
  then show ?case
    by (auto simp add: Let_def split: if_splits sum.splits)
qed

lemma unserialisable_kubernetes:
  "unserialisable (PyDict (fst (backup_kubernetes_resources w s))) = None"
  by (simp add: backup_kubernetes_resources_def backup_kubernetes_resources_try_def
      now_def s3_put_def dumps_def Let_def split: sum.splits option.splits)

lemma unserialisable_rds:
  "unserialisable (PyDict (fst (verify_rds_backups w s))) = None"
  by (auto simp add: verify_rds_backups_def verify_rds_backups_try_def Let_def
      backup_status_of_serialisable first_some_single split: sum.splits)

lemma unserialisable_items:
  "first_some (map unserialisable (map item_dict app_backup_items)) = None"
  by (simp add: app_backup_items_def)

lemma unserialisable_application:
  "unserialisable (PyDict (fst (backup_application_data w s))) = None"
  by (simp add: backup_application_data_def backup_application_data_try_def
      now_def s3_put_def dumps_def Let_def unserialisable_items split: sum.splits option.splits)

lemma unserialisable_upload:
  "unserialisable (PyDict (fst (upload_backup_metadata br w s))) = None"
  by (simp add: upload_backup_metadata_def upload_backup_metadata_try_def
      now_def s3_put_def dumps_indent_def Let_def split: sum.splits option.splits)

section \<open>How a run of the handler ends\<close>

lemma handler_calling_first_raises:
  assumes "now w s0 = (t, s1)"
      and "call_backup_kubernetes_resources fs w s1 = (Inl x, s2)"
  shows "handler_calling fs w s0 = (except_outcome t w [] x, s2)"
  using assms
  by (cases x)
     (simp_all add: handler_calling_def handler_try_def call_and_append_def
        except_outcome_def failure_response_def report_with_def dumps_def)

lemma handler_calling_second_raises:
  assumes "now w s0 = (t, s1)"
      and "call_backup_kubernetes_resources fs w s1 = (Inr v1, s2)"
      and "call_verify_rds_backups fs w s2 = (Inl x, s3)"
  shows "handler_calling fs w s0 = (except_outcome t w [v1] x, s3)"
  using assms
  by (cases x)
     (simp_all add: handler_calling_def handler_try_def call_and_append_def
        append_operation_def dict_getitem_def
        except_outcome_def failure_response_def report_with_def dumps_def
        first_some_single first_some_None_tail split: option.splits)

lemma handler_calling_third_raises:
  assumes "now w s0 = (t, s1)"
      and "call_backup_kubernetes_resources fs w s1 = (Inr v1, s2)"
      and "call_verify_rds_backups fs w s2 = (Inr v2, s3)"
      and "call_backup_application_data fs w s3 = (Inl x, s4)"
  shows "handler_calling fs w s0 = (except_outcome t w [v1, v2] x, s4)"
  using assms
  by (cases x)
     (simp_all add: handler_calling_def handler_try_def call_and_append_def
        append_operation_def dict_getitem_def
        except_outcome_def failure_response_def report_with_def dumps_def
        first_some_single first_some_None_tail split: option.splits)

lemma handler_calling_fourth_raises:
  assumes "now w s0 = (t, s1)"
      and "call_backup_kubernetes_resources fs w s1 = (Inr v1, s2)"
      and "call_verify_rds_backups fs w s2 = (Inr v2, s3)"
      and "call_backup_application_data fs w s3 = (Inr v3, s4)"
      and "call_upload_backup_metadata fs (report_with t w [v1, v2, v3]) w s4 = (Inl x, s5)"
  shows "handler_calling fs w s0 = (except_outcome t w [v1, v2, v3] x, s5)"
  using assms
  by (cases x)
     (simp_all add: handler_calling_def handler_try_def call_and_append_def
        append_operation_def dict_getitem_def
        except_outcome_def failure_response_def report_with_def dumps_def
        first_some_single first_some_None_tail split: option.splits)

lemma handler_calling_all_return:
  assumes "now w s0 = (t, s1)"
      and "call_backup_kubernetes_resources fs w s1 = (Inr v1, s2)"
      and "call_verify_rds_backups fs w s2 = (Inr v2, s3)"
      and "call_backup_application_data fs w s3 = (Inr v3, s4)"
      and "call_upload_backup_metadata fs (report_with t w [v1, v2, v3]) w s4 = (Inr v4, s5)"
  shows "handler_calling fs w s0 = (try_outcome t w [v1, v2, v3, v4], s5)"
proof (cases "check_backup_health (report_with t w [v1, v2, v3, v4])")
  case (Inl e)
  with assms show ?thesis
    by (simp add: handler_calling_def handler_try_def call_and_append_def
        append_operation_def dict_getitem_def try_outcome_def
        except_outcome_def failure_response_def report_with_def dumps_def
        first_some_single first_some_None_tail split: option.splits)
next
  case (Inr st)
  with assms show ?thesis
    by (simp add: handler_calling_def handler_try_def call_and_append_def
        append_operation_def dict_getitem_def try_outcome_def
        except_outcome_def failure_response_def report_with_def dumps_def
        first_some_single first_some_None_tail split: option.splits)
qed

lemma try_outcome_source:
  assumes "unserialisable (PyDict r1) = None" and "unserialisable (PyDict r2) = None"
      and "unserialisable (PyDict r3) = None" and "unserialisable (PyDict r4) = None"
  shows "try_outcome t w (map PyDict [r1, r2, r3, r4]) =
           Inr \<lparr>statusCode = 200,
                body = Dumps (PyDict (report_with t w (map PyDict [r1, r2, r3, r4])
                                      @ [(''overall_status'', PyStr (evaluate [r1, r2, r3, r4]))]))\<rparr>"
proof -
  have h: "check_backup_health (report_with t w (map PyDict [r1, r2, r3, r4]))
             = Inr (evaluate [r1, r2, r3, r4])"
    by (rule check_backup_health_evaluate) (simp add: report_with_def)
  have u: "unserialisable (PyList (map PyDict [r1, r2, r3, r4])) = None"
    using assms by simp
  show ?thesis
    unfolding try_outcome_def h u by simp
qed

text \<open>What the handler of the source returns, from what its four steps return.\<close>

lemma handler_source:
  assumes "now w s0 = (t, s1)"
      and "backup_kubernetes_resources w s1 = (r1, s2)"
      and "verify_rds_backups w s2 = (r2, s3)"
      and "backup_application_data w s3 = (r3, s4)"
      and "upload_backup_metadata (report_with t w (map PyDict [r1, r2, r3])) w s4 = (r4, s5)"
  shows "handler w s0 =
           (Inr \<lparr>statusCode = 200,
                 body = Dumps (PyDict (report_with t w (map PyDict [r1, r2, r3, r4])
                                       @ [(''overall_status'', PyStr (evaluate [r1, r2, r3, r4]))]))\<rparr>,
            s5)"
proof -
  have 1: "unserialisable (PyDict r1) = None"
    using unserialisable_kubernetes [of w s1] by (simp add: assms(2))
  have 2: "unserialisable (PyDict r2) = None"
    using unserialisable_rds [of w s2] by (simp add: assms(3))
  have 3: "unserialisable (PyDict r3) = None"
    using unserialisable_application [of w s3] by (simp add: assms(4))
  have 4: "unserialisable (PyDict r4) = None"
    using unserialisable_upload [of "report_with t w (map PyDict [r1, r2, r3])" w s4]
    by (simp only: assms(5) fst_conv)
  have "handler_calling source_steps w s0
          = (try_outcome t w [PyDict r1, PyDict r2, PyDict r3, PyDict r4], s5)"
    by (rule handler_calling_all_return
          [where ?s2.0 = s2 and ?s3.0 = s3 and ?s4.0 = s4, OF assms(1)])
       (use assms in \<open>simp_all add: source_steps_def returning_def\<close>)
  then show ?thesis
    using try_outcome_source [OF 1 2 3 4, of t w] by (simp add: handler_def)
qed

text \<open>
  C6, as the source has it. No step function lets an exception out: whenever the body
  of its \<^verbatim>\<open>try\<close> block raises \<open>e\<close>, the function returns the result with status
  FAILED whose \<^verbatim>\<open>error\<close> is \<^verbatim>\<open>str(e)\<close> (empty when the exception has no
  message), and the handler appends the result of each of the four steps in order,
  each step starting from the state the one before it left.
\<close>

theorem step_failure_is_a_result:
  "(backup_kubernetes_resources_try w s = (Inl e1, t1) \<longrightarrow>
      backup_kubernetes_resources w s = (failed_result ''kubernetes_backup'' e1, t1)) \<and>
   (verify_rds_backups_try w s = (Inl e2, t2) \<longrightarrow>
      verify_rds_backups w s = (failed_result ''rds_backup_verification'' e2, t2)) \<and>
   (backup_application_data_try w s = (Inl e3, t3) \<longrightarrow>
      backup_application_data w s = (failed_result ''application_data_backup'' e3, t3)) \<and>
   (upload_backup_metadata_try br w s = (Inl e4, t4) \<longrightarrow>
      upload_backup_metadata br w s = (failed_result ''metadata_upload'' e4, t4)) \<and>
   operations_of (report_of (handler w s)) =
     (let k = backup_kubernetes_resources w (snd (now w s));
          v = verify_rds_backups w (snd k);
          a = backup_application_data w (snd v);
          u = upload_backup_metadata
                (report_with (fst (now w s)) w (map PyDict [fst k, fst v, fst a])) w (snd a)
      in map PyDict [fst k, fst v, fst a, fst u])"
proof -
  have "operations_of (report_of (handler w s)) =
     (let k = backup_kubernetes_resources w (snd (now w s));
          v = verify_rds_backups w (snd k);
          a = backup_application_data w (snd v);
          u = upload_backup_metadata
                (report_with (fst (now w s)) w (map PyDict [fst k, fst v, fst a])) w (snd a)
      in map PyDict [fst k, fst v, fst a, fst u])"
    by (simp add: Let_def report_of_def operations_of_def report_with_def
        handler_source [OF surjective_pairing surjective_pairing surjective_pairing surjective_pairing surjective_pairing])
  then show ?thesis
    by (simp add: backup_kubernetes_resources_def verify_rds_backups_def
        backup_application_data_def upload_backup_metadata_def failed_result_def)
qed

theorem step_failure_is_a_result_witness:
  "backup_kubernetes_resources_try world_all_raise fresh = (Inl (Exn ''cluster not found''), fresh) \<and>
   backup_kubernetes_resources world_all_raise fresh
     = (failed_result ''kubernetes_backup'' (Exn ''cluster not found''), fresh) \<and>
   verify_rds_backups_try world_all_raise fresh = (Inl (Exn ''access denied''), fresh) \<and>
   verify_rds_backups world_all_raise fresh
     = (failed_result ''rds_backup_verification'' (Exn ''access denied''), fresh) \<and>
   backup_application_data_try world_all_raise fresh
     = (Inl (Exn ''no such bucket''), fresh\<lparr>clock_reads := 1\<rparr>) \<and>
   backup_application_data world_all_raise fresh
     = (failed_result ''application_data_backup'' (Exn ''no such bucket''),
        fresh\<lparr>clock_reads := 1\<rparr>) \<and>
   upload_backup_metadata_try [] world_all_raise fresh
     = (Inl (Exn ''no such bucket''), fresh\<lparr>clock_reads := 1\<rparr>) \<and>
   upload_backup_metadata [] world_all_raise fresh
     = (failed_result ''metadata_upload'' (Exn ''no such bucket''), fresh\<lparr>clock_reads := 1\<rparr>) \<and>
   operations_of (report_of (handler world_all_raise fresh)) =
     map PyDict
       [failed_result ''kubernetes_backup'' (Exn ''cluster not found''),
        failed_result ''rds_backup_verification'' (Exn ''access denied''),
        failed_result ''application_data_backup'' (Exn ''no such bucket''),
        failed_result ''metadata_upload'' (Exn ''no such bucket'')]"
proof -
  have k: "backup_kubernetes_resources_try world_all_raise fresh
             = (Inl (Exn ''cluster not found''), fresh)"
    by code_simp
  have v: "verify_rds_backups_try world_all_raise fresh = (Inl (Exn ''access denied''), fresh)"
    by code_simp
  have a: "backup_application_data_try world_all_raise fresh
             = (Inl (Exn ''no such bucket''), fresh\<lparr>clock_reads := 1\<rparr>)"
    by code_simp
  have u: "upload_backup_metadata_try [] world_all_raise fresh
             = (Inl (Exn ''no such bucket''), fresh\<lparr>clock_reads := 1\<rparr>)"
    by code_simp
  have o: "operations_of (report_of (handler world_all_raise fresh)) =
     map PyDict
       [failed_result ''kubernetes_backup'' (Exn ''cluster not found''),
        failed_result ''rds_backup_verification'' (Exn ''access denied''),
        failed_result ''application_data_backup'' (Exn ''no such bucket''),
        failed_result ''metadata_upload'' (Exn ''no such bucket'')]"
    by code_simp
  from step_failure_is_a_result
         [of world_all_raise fresh "Exn ''cluster not found''" fresh
             "Exn ''access denied''" fresh
             "Exn ''no such bucket''" "fresh\<lparr>clock_reads := 1\<rparr>" "[]"
             "Exn ''no such bucket''" "fresh\<lparr>clock_reads := 1\<rparr>"]
       k v a u
  have "backup_kubernetes_resources world_all_raise fresh
          = (failed_result ''kubernetes_backup'' (Exn ''cluster not found''), fresh)"
    and "verify_rds_backups world_all_raise fresh
          = (failed_result ''rds_backup_verification'' (Exn ''access denied''), fresh)"
    and "backup_application_data world_all_raise fresh
          = (failed_result ''application_data_backup'' (Exn ''no such bucket''),
             fresh\<lparr>clock_reads := 1\<rparr>)"
    and "upload_backup_metadata [] world_all_raise fresh
          = (failed_result ''metadata_upload'' (Exn ''no such bucket''),
             fresh\<lparr>clock_reads := 1\<rparr>)"
    by blast+
  with k v a u o show ?thesis by blast
qed

text \<open>
  The claim as worded promises a non-empty error description. An exception without a
  message, raised here by the cluster lookup, gives an empty one.
\<close>

theorem step_failure_empty_error_counterexample:
  "backup_kubernetes_resources world_silent_error fresh =
     ([(''operation'', PyStr ''kubernetes_backup''),
       (''status'', PyStr ''FAILED''),
       (''error'', PyStr [])], fresh)"
  by (simp add: backup_kubernetes_resources_def backup_kubernetes_resources_try_def
      world_silent_error_def example_world_def)




section \<open>Two runs with stubbed steps\<close>

lemma check_backup_health_report:
  "check_backup_health (report_with t' w' ops) = check_backup_health (report_with t w ops)"
  by (simp add: check_backup_health_def report_with_def dict_get_def)

lemma without_timestamp_except:
  assumes "ENVIRONMENT w' = ENVIRONMENT w" and "CLUSTER_NAME w' = CLUSTER_NAME w"
  shows "without_timestamp (except_outcome t' w' ops x, sa)
           = without_timestamp (except_outcome t w ops x, sb)"
  using assms
  by (cases x)
     (simp_all add: without_timestamp_def except_outcome_def failure_response_def
        report_with_def dict_del_def split: option.splits)

lemma without_timestamp_try:
  assumes "ENVIRONMENT w' = ENVIRONMENT w" and "CLUSTER_NAME w' = CLUSTER_NAME w"
  shows "without_timestamp (try_outcome t' w' ops, sa)
           = without_timestamp (try_outcome t w ops, sb)"
proof -
  have c: "check_backup_health (report_with t' w' ops) = check_backup_health (report_with t w ops)"
    by (rule check_backup_health_report)
  show ?thesis
  proof (cases "check_backup_health (report_with t w ops)")
    case (Inl e)
    show ?thesis
      unfolding try_outcome_def c Inl
      using without_timestamp_except [OF assms, of t' ops "Exception e" sa t sb] by simp
  next
    case (Inr st)
    show ?thesis
      unfolding try_outcome_def c Inr
      using assms
      by (simp add: without_timestamp_def report_with_def dict_del_def split: option.splits)
  qed
qed

text \<open>
  C8. Two runs of the handler with the same environment and cluster name, whose four
  step functions are stubs that give the same fixed outcome whatever the time and the
  state, end the same way: the same status code and, but for \<^verbatim>\<open>timestamp\<close>, the
  same report. The clocks and the states the runs start from are arbitrary.
\<close>

theorem stubbed_runs_agree_except_timestamp:
  assumes "\<forall>w s. fst (call_backup_kubernetes_resources fs w s) = c1"
      and "\<forall>w s. fst (call_verify_rds_backups fs w s) = c2"
      and "\<forall>w s. fst (call_backup_application_data fs w s) = c3"
      and "\<forall>br w s. fst (call_upload_backup_metadata fs br w s) = c4"
      and "ENVIRONMENT w' = ENVIRONMENT w" and "CLUSTER_NAME w' = CLUSTER_NAME w"
  shows "without_timestamp (handler_calling fs w' s') = without_timestamp (handler_calling fs w s)"
proof -
  note ctx = assms(5,6)
  obtain t s1 where n: "now w s = (t, s1)" by force
  obtain t' s1' where n': "now w' s' = (t', s1')" by force
  obtain s2 where k: "call_backup_kubernetes_resources fs w s1 = (c1, s2)"
    using assms(1) by (metis surjective_pairing)
  obtain s2' where k': "call_backup_kubernetes_resources fs w' s1' = (c1, s2')"
    using assms(1) by (metis surjective_pairing)
  obtain s3 where v: "call_verify_rds_backups fs w s2 = (c2, s3)"
    using assms(2) by (metis surjective_pairing)
  obtain s3' where v': "call_verify_rds_backups fs w' s2' = (c2, s3')"
    using assms(2) by (metis surjective_pairing)
  obtain s4 where a: "call_backup_application_data fs w s3 = (c3, s4)"
    using assms(3) by (metis surjective_pairing)
  obtain s4' where a': "call_backup_application_data fs w' s3' = (c3, s4')"
    using assms(3) by (metis surjective_pairing)
  have u: "\<exists>s5. call_upload_backup_metadata fs br w s4 = (c4, s5)" for br
    using assms(4) by (metis surjective_pairing)
  have u': "\<exists>s5. call_upload_backup_metadata fs br w' s4' = (c4, s5)" for br
    using assms(4) by (metis surjective_pairing)
  have wt: "without_timestamp (r, sa) = without_timestamp (r, sb)" for r sa sb
    by (simp add: without_timestamp_def)
  show ?thesis
  proof (cases c1)
    case (Inl x)
    show ?thesis
      using handler_calling_first_raises [OF n k [unfolded Inl]]
            handler_calling_first_raises [OF n' k' [unfolded Inl]]
            without_timestamp_except [OF ctx]
      by simp
  next
    case 1: (Inr v1)
    show ?thesis
    proof (cases c2)
      case (Inl x)
      show ?thesis
        using handler_calling_second_raises [OF n k [unfolded 1] v [unfolded Inl]]
              handler_calling_second_raises [OF n' k' [unfolded 1] v' [unfolded Inl]]
              without_timestamp_except [OF ctx]
        by simp
    next
      case 2: (Inr v2)
      show ?thesis
      proof (cases c3)
        case (Inl x)
        show ?thesis
          using handler_calling_third_raises [OF n k [unfolded 1] v [unfolded 2] a [unfolded Inl]]
                handler_calling_third_raises
                  [OF n' k' [unfolded 1] v' [unfolded 2] a' [unfolded Inl]]
                without_timestamp_except [OF ctx]
          by simp
      next
        case 3: (Inr v3)
        obtain s5 where
          up: "call_upload_backup_metadata fs (report_with t w [v1, v2, v3]) w s4 = (c4, s5)"
          using u by blast
        obtain s5' where
          up': "call_upload_backup_metadata fs (report_with t' w' [v1, v2, v3]) w' s4' = (c4, s5')"
          using u' by blast
        show ?thesis
        proof (cases c4)
          case (Inl x)
          show ?thesis
            using handler_calling_fourth_raises
                    [OF n k [unfolded 1] v [unfolded 2] a [unfolded 3] up [unfolded Inl]]
                  handler_calling_fourth_raises
                    [OF n' k' [unfolded 1] v' [unfolded 2] a' [unfolded 3] up' [unfolded Inl]]
                  without_timestamp_except [OF ctx]
            by simp
        next
          case (Inr v4)
          show ?thesis
            using handler_calling_all_return
                    [OF n k [unfolded 1] v [unfolded 2] a [unfolded 3] up [unfolded Inr]]
                  handler_calling_all_return
                    [OF n' k' [unfolded 1] v' [unfolded 2] a' [unfolded 3] up' [unfolded Inr]]
                  without_timestamp_try [OF ctx]
            by simp
        qed
      qed
    qed
  qed
qed

theorem stubbed_runs_agree_except_timestamp_witness:
  "report_of (handler_calling (stub_steps 0) world_next_day fresh)
     \<noteq> report_of (handler_calling (stub_steps 0) example_world fresh) \<and>
   without_timestamp (handler_calling (stub_steps 0) world_next_day fresh)
     = without_timestamp (handler_calling (stub_steps 0) example_world fresh) \<and>
   status_code_of (handler_calling (stub_steps 0) example_world fresh) = Some 200 \<and>
   length (operations_of (report_of (handler_calling (stub_steps 0) example_world fresh))) = 4"
proof -
  have d: "report_of (handler_calling (stub_steps 0) world_next_day fresh)
             \<noteq> report_of (handler_calling (stub_steps 0) example_world fresh)"
    by code_simp
  have c: "status_code_of (handler_calling (stub_steps 0) example_world fresh) = Some 200"
    by code_simp
  have l: "length (operations_of (report_of (handler_calling (stub_steps 0) example_world fresh)))
             = 4"
    by code_simp
  have "without_timestamp (handler_calling (stub_steps 0) world_next_day fresh)
          = without_timestamp (handler_calling (stub_steps 0) example_world fresh)"
    by (rule stubbed_runs_agree_except_timestamp
          [where ?c1.0 = "Inr (stub_result ''kubernetes_backup'')"
             and ?c2.0 = "Inr (stub_result ''rds_backup_verification'')"
             and ?c3.0 = "Inr (stub_result ''application_data_backup'')"
             and ?c4.0 = "Inr (stub_result ''metadata_upload'')"])
       (simp_all add: stub_steps_def stub_call_def world_next_day_def)
  with d c l show ?thesis by blast
qed

section \<open>Status code, report and stored copy\<close>

lemma handler_try_returns_200:
  assumes "handler_try fs w br s = (Inr resp, s')"
  shows "statusCode resp = 200"
  using assms
  by (auto simp add: handler_try_def Let_def split: prod.splits sum.splits)

lemma evaluate_range: "evaluate ds \<in> {''SUCCESS'', ''WARNING'', ''FAILED''}"
  by (simp add: evaluate_def)

text \<open>What the upload step does with a report that can be encoded.\<close>

lemma upload_backup_metadata_request:
  assumes "unserialisable (PyDict br) = None"
  shows "upload_backup_metadata br w s =
           (case put_object w (upload_request br w s) of
              None \<Rightarrow>
                ([(''operation'', PyStr ''metadata_upload''), (''status'', PyStr ''SUCCESS''),
                  (''location'', PyStr (''s3://'' @ S3_BUCKET w @ ''/'' @ Key (upload_request br w s)))],
                 s\<lparr>clock_reads := Suc (clock_reads s),
                   s3_objects := s3_objects s @ [upload_request br w s]\<rparr>)
            | Some e \<Rightarrow>
                (failed_result ''metadata_upload'' e, s\<lparr>clock_reads := Suc (clock_reads s)\<rparr>))"
  using assms
  by (simp add: upload_backup_metadata_def upload_backup_metadata_try_def upload_request_def
      dumps_indent_def s3_put_def now_def failed_result_def Let_def split: option.splits)

lemma report_before_upload_serialisable:
  "unserialisable
     (PyDict (report_with t w
        (map PyDict [fst (backup_kubernetes_resources w s1), fst (verify_rds_backups w s2),
                     fst (backup_application_data w s3)]))) = None"
  unfolding unserialisable_report(1)
  using unserialisable_kubernetes [of w s1] unserialisable_rds [of w s2]
        unserialisable_application [of w s3]
  by simp

text \<open>
  C1, as the source has it. The handler of the source always returns status code 200
  and the serialised report, whatever \<^verbatim>\<open>overall_status\<close> is, and
  \<^verbatim>\<open>overall_status\<close> is the health of the four results; when the write the
  metadata-upload step asks for fails, \<^verbatim>\<open>overall_status\<close> is FAILED, still with
  status code 200. Whatever functions the handler calls, its status code is 200 exactly
  when the \<^verbatim>\<open>try\<close> block ends without an exception, and 500 exactly when an
  instance of \<^verbatim>\<open>Exception\<close> is raised in the \<^verbatim>\<open>try\<close> block and the report,
  with \<^verbatim>\<open>error\<close> set to \<^verbatim>\<open>str(e)\<close> and \<^verbatim>\<open>overall_status\<close> to FAILED, can be
  encoded; that report is then the body.
\<close>

theorem handler_status_code:
  "(let t = fst (now w s0);
        k = backup_kubernetes_resources w (snd (now w s0));
        v = verify_rds_backups w (snd k);
        a = backup_application_data w (snd v);
        br3 = report_with t w (map PyDict [fst k, fst v, fst a]);
        u = upload_backup_metadata br3 w (snd a);
        ops = [fst k, fst v, fst a, fst u]
    in handler w s0 =
         (Inr \<lparr>statusCode = 200,
               body = Dumps (PyDict (report_with t w (map PyDict ops)
                                     @ [(''overall_status'', PyStr (evaluate ops))]))\<rparr>,
          snd u) \<and>
       check_backup_health (report_with t w (map PyDict ops)) = Inr (evaluate ops) \<and>
       evaluate ops \<in> {''SUCCESS'', ''WARNING'', ''FAILED''} \<and>
       (put_object w (upload_request br3 w (snd a)) \<noteq> None \<longrightarrow> evaluate ops = ''FAILED'')) \<and>
   ((status_code_of (handler_calling fs w s0) = Some 200) =
      (\<exists>resp s'. handler_try fs w (report_with (fst (now w s0)) w []) (snd (now w s0))
                   = (Inr resp, s'))) \<and>
   ((status_code_of (handler_calling fs w s0) = Some 500) =
      (\<exists>e br s'. handler_try fs w (report_with (fst (now w s0)) w []) (snd (now w s0))
                    = (Inl (Exception e, br), s') \<and>
                  unserialisable
                    (PyDict (dict_set ''overall_status'' (PyStr ''FAILED'')
                               (dict_set ''error'' (PyStr (str_of e)) br))) = None)) \<and>
   (\<forall>e br s'. handler_try fs w (report_with (fst (now w s0)) w []) (snd (now w s0))
                 = (Inl (Exception e, br), s') \<and>
               unserialisable
                 (PyDict (dict_set ''overall_status'' (PyStr ''FAILED'')
                            (dict_set ''error'' (PyStr (str_of e)) br))) = None \<longrightarrow>
               handler_calling fs w s0 =
                 (Inr \<lparr>statusCode = 500,
                       body = Dumps (PyDict (dict_set ''overall_status'' (PyStr ''FAILED'')
                                               (dict_set ''error'' (PyStr (str_of e)) br)))\<rparr>,
                  s'))"
proof -
  obtain t s1 where n: "now w s0 = (t, s1)" by force
  obtain r1 s2 where k: "backup_kubernetes_resources w s1 = (r1, s2)" by force
  obtain r2 s3 where v: "verify_rds_backups w s2 = (r2, s3)" by force
  obtain r3 s4 where a: "backup_application_data w s3 = (r3, s4)" by force
  let ?br3 = "report_with t w (map PyDict [r1, r2, r3])"
  obtain r4 s5 where u: "upload_backup_metadata ?br3 w s4 = (r4, s5)" by force
  note h = handler_source [OF n k v a u]
  have ser: "unserialisable (PyDict ?br3) = None"
    using report_before_upload_serialisable [of t w s1 s2 s3] by (simp add: k v a)
  have health: "check_backup_health (report_with t w (map PyDict [r1, r2, r3, r4]))
                  = Inr (evaluate [r1, r2, r3, r4])"
    by (rule check_backup_health_evaluate) (simp add: report_with_def)
  have down: "evaluate [r1, r2, r3, r4] = ''FAILED''"
    if "put_object w (upload_request ?br3 w s4) \<noteq> None"
  proof -
    from that obtain e where "put_object w (upload_request ?br3 w s4) = Some e" by blast
    then have "r4 = failed_result ''metadata_upload'' e"
      using upload_backup_metadata_request [OF ser, of w s4] u by simp
    then show ?thesis
      by (simp add: evaluate_def failed_result_def op_status_def dict_get_def)
  qed
  have src: "let t = fst (now w s0);
        k = backup_kubernetes_resources w (snd (now w s0));
        v = verify_rds_backups w (snd k);
        a = backup_application_data w (snd v);
        br3 = report_with t w (map PyDict [fst k, fst v, fst a]);
        u = upload_backup_metadata br3 w (snd a);
        ops = [fst k, fst v, fst a, fst u]
    in handler w s0 =
         (Inr \<lparr>statusCode = 200,
               body = Dumps (PyDict (report_with t w (map PyDict ops)
                                     @ [(''overall_status'', PyStr (evaluate ops))]))\<rparr>,
          snd u) \<and>
       check_backup_health (report_with t w (map PyDict ops)) = Inr (evaluate ops) \<and>
       evaluate ops \<in> {''SUCCESS'', ''WARNING'', ''FAILED''} \<and>
       (put_object w (upload_request br3 w (snd a)) \<noteq> None \<longrightarrow> evaluate ops = ''FAILED'')"
    unfolding Let_def n k v a fst_conv snd_conv u
    using h health down evaluate_range [of "[r1, r2, r3, r4]"] by simp
  let ?br0 = "report_with t w []"
  obtain res s' where tr: "handler_try fs w ?br0 s1 = (res, s')" by force
  have tr0: "handler_try fs w
               [(''timestamp'', PyStr (isoformat t)), (''environment'', PyStr (ENVIRONMENT w)),
                (''cluster_name'', PyStr (CLUSTER_NAME w)), (''backup_operations'', PyList [])] s1
             = (res, s')"
    using tr by (simp add: report_with_def)
  have gen: "((status_code_of (handler_calling fs w s0) = Some 200) =
      (\<exists>resp s'. handler_try fs w ?br0 s1 = (Inr resp, s'))) \<and>
   ((status_code_of (handler_calling fs w s0) = Some 500) =
      (\<exists>e br s'. handler_try fs w ?br0 s1 = (Inl (Exception e, br), s') \<and>
                  unserialisable
                    (PyDict (dict_set ''overall_status'' (PyStr ''FAILED'')
                               (dict_set ''error'' (PyStr (str_of e)) br))) = None)) \<and>
   (\<forall>e br s'. handler_try fs w ?br0 s1 = (Inl (Exception e, br), s') \<and>
               unserialisable
                 (PyDict (dict_set ''overall_status'' (PyStr ''FAILED'')
                            (dict_set ''error'' (PyStr (str_of e)) br))) = None \<longrightarrow>
               handler_calling fs w s0 =
                 (Inr \<lparr>statusCode = 500,
                       body = Dumps (PyDict (dict_set ''overall_status'' (PyStr ''FAILED'')
                                               (dict_set ''error'' (PyStr (str_of e)) br)))\<rparr>,
                  s'))"
  proof (cases res)
    case (Inr resp)
    then show ?thesis
      using handler_try_returns_200 [of fs w ?br0 s1 resp s']
      by (simp add: handler_calling_def n tr tr0 status_code_of_def)
  next
    case (Inl p)
    obtain x br where p: "p = (x, br)" by force
    show ?thesis
    proof (cases x)
      case (BaseException b)
      then show ?thesis by (simp add: handler_calling_def n tr tr0 Inl p status_code_of_def)
    next
      case (Exception e)
      then show ?thesis
        by (simp add: handler_calling_def n tr tr0 Inl p status_code_of_def dumps_def Let_def
            split: option.splits)
    qed
  qed
  show ?thesis
    using src gen by (simp only: n fst_conv snd_conv) blast
qed

theorem handler_status_code_witness:
  "status_code_of (handler world_sink_down fresh) = Some 200 \<and>
   map_of (report_of (handler world_sink_down fresh)) ''overall_status''
     = Some (PyStr ''FAILED'') \<and>
   status_code_of (handler_calling (stub_steps 0) world_sink_down fresh) = Some 200 \<and>
   status_code_of (handler_calling (stub_steps 2) world_sink_down fresh) = Some 500 \<and>
   map_of (report_of (handler_calling (stub_steps 2) world_sink_down fresh)) ''error''
     = Some (PyStr ''boom'')"
proof -
  have p: "put_object world_sink_down (upload_request br world_sink_down s) \<noteq> None" for br s
    by (simp add: world_sink_down_def upload_request_def)
  have 1: "status_code_of (handler world_sink_down fresh) = Some 200 \<and>
           map_of (report_of (handler world_sink_down fresh)) ''overall_status''
             = Some (PyStr ''FAILED'')"
    using handler_status_code [of world_sink_down fresh "stub_steps 2", THEN conjunct1] p
    by (simp add: Let_def status_code_of_def report_of_def report_with_def)
  have t0: "handler_try (stub_steps 0) world_sink_down
              (report_with (fst (now world_sink_down fresh)) world_sink_down [])
              (snd (now world_sink_down fresh))
            = (Inr \<lparr>statusCode = 200,
                    body = Dumps (PyDict
                      (report_with (fst (now world_sink_down fresh)) world_sink_down
                         [stub_result ''kubernetes_backup'', stub_result ''rds_backup_verification'',
                          stub_result ''application_data_backup'', stub_result ''metadata_upload'']
                       @ [(''overall_status'', PyStr ''SUCCESS'')]))\<rparr>,
               snd (now world_sink_down fresh))"
    by code_simp
  have 2: "status_code_of (handler_calling (stub_steps 0) world_sink_down fresh) = Some 200"
    using handler_status_code
            [of world_sink_down fresh "stub_steps 0", THEN conjunct2, THEN conjunct1] t0
    by blast
  have t2: "handler_try (stub_steps 2) world_sink_down
              (report_with (fst (now world_sink_down fresh)) world_sink_down [])
              (snd (now world_sink_down fresh))
            = (Inl (Exception (Exn ''boom''),
                    report_with (fst (now world_sink_down fresh)) world_sink_down
                      [stub_result ''kubernetes_backup'']),
               snd (now world_sink_down fresh))"
    by code_simp
  have u2: "unserialisable
              (PyDict (dict_set ''overall_status'' (PyStr ''FAILED'')
                 (dict_set ''error'' (PyStr (str_of (Exn ''boom'')))
                    (report_with (fst (now world_sink_down fresh)) world_sink_down
                       [stub_result ''kubernetes_backup''])))) = None"
    by code_simp
  have 3: "status_code_of (handler_calling (stub_steps 2) world_sink_down fresh) = Some 500"
    using handler_status_code
            [of world_sink_down fresh "stub_steps 2", THEN conjunct2, THEN conjunct2,
             THEN conjunct1] t2 u2
    by blast
  have 4: "map_of (report_of (handler_calling (stub_steps 2) world_sink_down fresh)) ''error''
             = Some (PyStr ''boom'')"
    by code_simp
  from 1 2 3 4 show ?thesis by blast
qed

text \<open>
  The claim as worded, status code 500 when the write of the metadata-upload step
  fails, fails on such a run: the upload step's result is FAILED, the report says
  FAILED and has no \<^verbatim>\<open>error\<close>, and the status code is 200.
\<close>

theorem handler_status_code_counterexample:
  "last (operations_of (report_of (handler world_sink_down fresh)))
     = PyDict (failed_result ''metadata_upload'' (Exn ''AccessDenied'')) \<and>
   status_code_of (handler world_sink_down fresh) = Some 200 \<and>
   map_of (report_of (handler world_sink_down fresh)) ''overall_status''
     = Some (PyStr ''FAILED'') \<and>
   map_of (report_of (handler world_sink_down fresh)) ''error'' = None"
  by code_simp

text \<open>
  C2, as the source has it. In every run of the handler with its own steps, the
  metadata-upload step hands the report to the bucket before \<^verbatim>\<open>overall_status\<close> is
  computed: what it asks the bucket to store is the returned report without
  \<^verbatim>\<open>overall_status\<close> and without the upload step's own result. The
  \<^verbatim>\<open>overall_status\<close> of the returned report is the health of all four results.
  When the bucket accepts the write, that copy is the last object stored; when it
  refuses, the step stores nothing.
\<close>

theorem persisted_report_precedes_overall_status:
  "(let t = fst (now w s0);
        k = backup_kubernetes_resources w (snd (now w s0));
        v = verify_rds_backups w (snd k);
        a = backup_application_data w (snd v);
        request = upload_request (report_with t w (map PyDict [fst k, fst v, fst a])) w (snd a);
        report = report_of (handler w s0);
        final = snd (handler w s0)
    in length (operations_of report) = 4 \<and>
       (\<exists>st. check_backup_health report = Inr st \<and>
             map_of report ''overall_status'' = Some (PyStr st)) \<and>
       Body request =
         Dumps_indent 2
           (PyDict (dict_set ''backup_operations'' (PyList (butlast (operations_of report)))
                      (dict_del ''overall_status'' report))) \<and>
       map_of (loads (Body request)) ''overall_status'' = None \<and>
       length (operations_of (loads (Body request))) = 3 \<and>
       (put_object w request = None \<longrightarrow> s3_objects final = s3_objects (snd a) @ [request]) \<and>
       (put_object w request \<noteq> None \<longrightarrow> s3_objects final = s3_objects (snd a)))"
proof -
  obtain t s1 where n: "now w s0 = (t, s1)" by force
  obtain r1 s2 where k: "backup_kubernetes_resources w s1 = (r1, s2)" by force
  obtain r2 s3 where v: "verify_rds_backups w s2 = (r2, s3)" by force
  obtain r3 s4 where a: "backup_application_data w s3 = (r3, s4)" by force
  let ?br3 = "report_with t w (map PyDict [r1, r2, r3])"
  let ?req = "upload_request ?br3 w s4"
  obtain r4 s5 where u: "upload_backup_metadata ?br3 w s4 = (r4, s5)" by force
  note h = handler_source [OF n k v a u]
  have ser: "unserialisable (PyDict ?br3) = None"
    using report_before_upload_serialisable [of t w s1 s2 s3] by (simp add: k v a)
  have rep: "report_of (handler w s0) =
               report_with t w (map PyDict [r1, r2, r3, r4])
               @ [(''overall_status'', PyStr (evaluate [r1, r2, r3, r4]))]"
    by (simp add: h report_of_def)
  have fin: "snd (handler w s0) = s5"
    by (simp add: h)
  have health: "check_backup_health (report_of (handler w s0)) = Inr (evaluate [r1, r2, r3, r4])"
    unfolding rep by (rule check_backup_health_evaluate) (simp add: report_with_def)
  have 1: "length (operations_of (report_of (handler w s0))) = 4"
    by (simp add: rep report_with_def operations_of_def)
  have 2: "\<exists>st. check_backup_health (report_of (handler w s0)) = Inr st \<and>
             map_of (report_of (handler w s0)) ''overall_status'' = Some (PyStr st)"
    using health by (simp add: rep report_with_def)
  have 3: "Body ?req =
         Dumps_indent 2
           (PyDict (dict_set ''backup_operations''
                      (PyList (butlast (operations_of (report_of (handler w s0)))))
                      (dict_del ''overall_status'' (report_of (handler w s0)))))"
    by (simp add: upload_request_def rep report_with_def operations_of_def dict_del_def)
  have 4: "map_of (loads (Body ?req)) ''overall_status'' = None"
    by (simp add: upload_request_def report_with_def)
  have 5: "length (operations_of (loads (Body ?req))) = 3"
    by (simp add: upload_request_def report_with_def operations_of_def)
  have 6: "s3_objects (snd (handler w s0)) = s3_objects s4 @ [?req]"
    if "put_object w ?req = None"
    using upload_backup_metadata_request [OF ser, of w s4] u that by (auto simp add: fin)
  have 7: "s3_objects (snd (handler w s0)) = s3_objects s4"
    if "put_object w ?req \<noteq> None"
  proof -
    from that obtain e where "put_object w ?req = Some e" by blast
    then show ?thesis
      using upload_backup_metadata_request [OF ser, of w s4] u by (auto simp add: fin)
  qed
  show ?thesis
    unfolding Let_def n k v a fst_conv snd_conv
    using 1 2 3 4 5 6 7 by blast
qed

theorem persisted_report_precedes_overall_status_witness:
  "s3_objects (snd (handler example_world fresh)) \<noteq> [] \<and>
   Key (last (s3_objects (snd (handler example_world fresh))))
     = ''backup-reports/prod/20250101-000000/backup-report.json'' \<and>
   map_of (loads (Body (last (s3_objects (snd (handler example_world fresh))))))
     ''overall_status'' = None \<and>
   map_of (report_of (handler example_world fresh)) ''overall_status''
     = Some (PyStr ''SUCCESS'') \<and>
   length (s3_objects (snd (handler world_sink_down fresh))) = 2 \<and>
   length (operations_of (report_of (handler world_sink_down fresh))) = 4 \<and>
   map_of (report_of (handler world_sink_down fresh)) ''overall_status''
     = Some (PyStr ''FAILED'')"
proof -
  have p: "put_object example_world r = None" for r
    by (simp add: example_world_def)
  have q: "put_object world_sink_down (upload_request br world_sink_down s) \<noteq> None" for br s
    by (simp add: world_sink_down_def upload_request_def)
  have 1: "s3_objects (snd (handler example_world fresh)) \<noteq> []"
    using persisted_report_precedes_overall_status [of example_world fresh] p
    by (simp add: Let_def)
  have 2: "Key (last (s3_objects (snd (handler example_world fresh))))
     = ''backup-reports/prod/20250101-000000/backup-report.json''"
    by code_simp
  have 3: "map_of (loads (Body (last (s3_objects (snd (handler example_world fresh))))))
     ''overall_status'' = None"
    by code_simp
  have 4: "map_of (report_of (handler example_world fresh)) ''overall_status''
     = Some (PyStr ''SUCCESS'')"
    by code_simp
  have b: "length (s3_objects (snd (backup_application_data world_sink_down
             (snd (verify_rds_backups world_sink_down
                (snd (backup_kubernetes_resources world_sink_down
                   (snd (now world_sink_down fresh))))))))) = 2"
    by code_simp
  have 5: "length (s3_objects (snd (handler world_sink_down fresh))) = 2"
    using persisted_report_precedes_overall_status [of world_sink_down fresh] q b
    by (simp add: Let_def)
  have 6: "length (operations_of (report_of (handler world_sink_down fresh))) = 4"
    using persisted_report_precedes_overall_status [of world_sink_down fresh]
    by (simp add: Let_def)
  have 7: "map_of (report_of (handler world_sink_down fresh)) ''overall_status''
     = Some (PyStr ''FAILED'')"
    by code_simp
  from 1 2 3 4 5 6 7 show ?thesis by blast
qed

text \<open>
  The claim as worded has \<^verbatim>\<open>overall_status\<close> in the stored copy. In a run where
  everything succeeds, the stored copy holds three step results and no
  \<^verbatim>\<open>overall_status\<close>, while the returned report holds four and SUCCESS.
\<close>

theorem persisted_report_counterexample:
  "map_of (loads (Body (last (s3_objects (snd (handler example_world fresh))))))
     ''overall_status'' = None \<and>
   length (operations_of (loads (Body (last (s3_objects (snd (handler example_world fresh)))))))
     = 3 \<and>
   map_of (report_of (handler example_world fresh)) ''overall_status''
     = Some (PyStr ''SUCCESS'') \<and>
   length (operations_of (report_of (handler example_world fresh))) = 4"
  by code_simp


end
